theory Spec2Isabelle
  imports Complex_Main
begin

section \<open>JavaScript numbers\<close>

text \<open>
  The TypeScript type \<open>number\<close> is modelled twice. In this section it is the real
  numbers extended with the two infinities and NaN, with exact arithmetic on finite
  values: no arithmetic operation of JavaScript raises, a division by zero yields an
  infinity or NaN, and these values propagate through later operations as they do in
  JavaScript. The section on binary64 arithmetic below adds the rounding of IEEE 754
  doubles to every operation. A statement about \<open>calculateMetrics\<close> is about the program
  under exact arithmetic, a statement about \<open>calculateMetrics64\<close> about the program under
  binary64 arithmetic. The sign of zero is not modelled.
\<close>

datatype number = Num real | PosInf | NegInf | NaN

instantiation number :: "{plus,minus,uminus,times,inverse,ord}"
begin

fun plus_number :: "number \<Rightarrow> number \<Rightarrow> number" where
  "plus_number (Num a) (Num b) = Num (a + b)"
| "plus_number NaN _ = NaN"
| "plus_number _ NaN = NaN"
| "plus_number PosInf NegInf = NaN"
| "plus_number NegInf PosInf = NaN"
| "plus_number PosInf _ = PosInf"
| "plus_number _ PosInf = PosInf"
| "plus_number NegInf _ = NegInf"
| "plus_number _ NegInf = NegInf"

fun uminus_number :: "number \<Rightarrow> number" where
  "uminus_number (Num a) = Num (- a)"
| "uminus_number PosInf = NegInf"
| "uminus_number NegInf = PosInf"
| "uminus_number NaN = NaN"

definition minus_number :: "number \<Rightarrow> number \<Rightarrow> number" where
  "minus_number a b = a + (- b)"

fun times_number :: "number \<Rightarrow> number \<Rightarrow> number" where
  "times_number (Num a) (Num b) = Num (a * b)"
| "times_number NaN _ = NaN"
| "times_number _ NaN = NaN"
| "times_number PosInf (Num b) = (if 0 < b then PosInf else if b < 0 then NegInf else NaN)"
| "times_number NegInf (Num b) = (if 0 < b then NegInf else if b < 0 then PosInf else NaN)"
| "times_number (Num a) PosInf = (if 0 < a then PosInf else if a < 0 then NegInf else NaN)"
| "times_number (Num a) NegInf = (if 0 < a then NegInf else if a < 0 then PosInf else NaN)"
| "times_number PosInf PosInf = PosInf"
| "times_number PosInf NegInf = NegInf"
| "times_number NegInf PosInf = NegInf"
| "times_number NegInf NegInf = PosInf"

text \<open>A zero divisor is taken to be \<open>+0\<close>: the only divisor of the program that can be
  zero is a difference \<open>x - 1\<close>, which is \<open>+0\<close> when it is zero.\<close>

fun divide_number :: "number \<Rightarrow> number \<Rightarrow> number" where
  "divide_number (Num a) (Num b) =
     (if b \<noteq> 0 then Num (a / b)
      else if 0 < a then PosInf else if a < 0 then NegInf else NaN)"
| "divide_number NaN _ = NaN"
| "divide_number _ NaN = NaN"
| "divide_number (Num a) PosInf = Num 0"
| "divide_number (Num a) NegInf = Num 0"
| "divide_number PosInf (Num b) = (if 0 \<le> b then PosInf else NegInf)"
| "divide_number NegInf (Num b) = (if 0 \<le> b then NegInf else PosInf)"
| "divide_number PosInf PosInf = NaN"
| "divide_number PosInf NegInf = NaN"
| "divide_number NegInf PosInf = NaN"
| "divide_number NegInf NegInf = NaN"

definition inverse_number :: "number \<Rightarrow> number" where
  "inverse_number a = divide (Num 1) a"

fun less_number :: "number \<Rightarrow> number \<Rightarrow> bool" where
  "less_number (Num a) (Num b) = (a < b)"
| "less_number NaN _ = False"
| "less_number _ NaN = False"
| "less_number NegInf (Num b) = True"
| "less_number NegInf PosInf = True"
| "less_number (Num a) PosInf = True"
| "less_number _ NegInf = False"
| "less_number PosInf _ = False"

fun less_eq_number :: "number \<Rightarrow> number \<Rightarrow> bool" where
  "less_eq_number (Num a) (Num b) = (a \<le> b)"
| "less_eq_number NaN _ = False"
| "less_eq_number _ NaN = False"
| "less_eq_number NegInf _ = True"
| "less_eq_number _ PosInf = True"
| "less_eq_number _ NegInf = False"
| "less_eq_number PosInf _ = False"

instance ..

end

text \<open>\<open>Math.round\<close>: the nearest integer, a tie going to the integer closer to
  \<open>+\<infinity>\<close>.\<close>

fun Math_round :: "number \<Rightarrow> number" where
  "Math_round (Num x) = Num (of_int \<lfloor>x + 1 / 2\<rfloor>)"
| "Math_round PosInf = PosInf"
| "Math_round NegInf = NegInf"
| "Math_round NaN = NaN"

text \<open>\<open>Math.pow\<close>, case by case as ECMAScript lists it (without the sign of zero).
  For two finite arguments: an exponent 0 gives 1; a positive base gives the real power;
  a base 0 gives 0 or \<open>Infinity\<close> by the sign of the exponent; a negative base gives the
  integer power when the exponent is an integer and NaN otherwise.\<close>

definition pow_finite :: "real \<Rightarrow> real \<Rightarrow> number" where
  "pow_finite x y =
     (if y = 0 then Num 1
      else if 0 < x then Num (x powr y)
      else if x = 0 then (if 0 < y then Num 0 else PosInf)
      else if of_int \<lfloor>y\<rfloor> = y then Num (x powi \<lfloor>y\<rfloor>)
      else NaN)"

definition odd_integer :: "real \<Rightarrow> bool" where
  "odd_integer y = (of_int \<lfloor>y\<rfloor> = y \<and> odd \<lfloor>y\<rfloor>)"

fun Math_pow :: "number \<Rightarrow> number \<Rightarrow> number" where
  "Math_pow b NaN = NaN"
| "Math_pow (Num x) (Num y) = pow_finite x y"
| "Math_pow PosInf (Num y) = (if y = 0 then Num 1 else if 0 < y then PosInf else Num 0)"
| "Math_pow NegInf (Num y) =
     (if y = 0 then Num 1
      else if 0 < y then (if odd_integer y then NegInf else PosInf)
      else Num 0)"
| "Math_pow NaN (Num y) = (if y = 0 then Num 1 else NaN)"
| "Math_pow NaN PosInf = NaN"
| "Math_pow NaN NegInf = NaN"
| "Math_pow (Num x) PosInf =
     (if 1 < \<bar>x\<bar> then PosInf else if \<bar>x\<bar> = 1 then NaN else Num 0)"
| "Math_pow (Num x) NegInf =
     (if 1 < \<bar>x\<bar> then Num 0 else if \<bar>x\<bar> = 1 then NaN else PosInf)"
| "Math_pow PosInf PosInf = PosInf"
| "Math_pow NegInf PosInf = PosInf"
| "Math_pow PosInf NegInf = Num 0"
| "Math_pow NegInf NegInf = Num 0"

text \<open>The expression \<open>Math.round(v * 100) / 100\<close>, which the program writes out for
  every field of its result.\<close>

definition round2 :: "number \<Rightarrow> number" where
  "round2 v = Math_round (v * Num 100) / Num 100"

text \<open>\<open>xs.reduce((sum, e) => sum + f(e), 0)\<close>\<close>

definition reduce_sum :: "('a \<Rightarrow> number) \<Rightarrow> 'a list \<Rightarrow> number" where
  "reduce_sum f xs = foldl (\<lambda>sum e. sum + f e) (Num 0) xs"


section \<open>The data model (shared/schema, here at the end of server/routes)\<close>

text \<open>The enum member \<open>STR\<close> is written \<open>STR_type\<close> (\<open>STR\<close> is reserved in HOL).\<close>

datatype PropertyType = LTR | STR_type

datatype BuildingType =
  SFH | DUPLEX | TRIPLEX | QUADPLEX | SIXPLEX | OCTOPLEX | DECAPLEX | DODECAPLEX

datatype ExpenseTiming = IMMEDIATE | YEAR_1

text \<open>The numeric fields of a property hold finite numbers: they are read from the
  number inputs of the form or from JSON, which has no infinity and no NaN.\<close>

record SharedDetails =
  id_str :: string
  name :: string
  marketValue :: real
  purchasePrice :: real
  downpayment :: real
  loanAmount :: real
  loanRemaining :: real
  interestRate :: real
  loanTermYears :: real
  closingCosts :: real

record LTRDetails =
  grossRentPerMonth :: real
  buildingType :: BuildingType
  numberOfUnits :: real
  pmFeePercent :: real
  annualPropertyTax :: real
  annualInsurance :: real
  monthlyRepairReserve :: real
  targetVeteranOccupancyPercent :: real
  currentVeteranOccupancyPercent :: "real option"

record STRDetails =
  dailyRate :: real
  daysInMonth :: real
  occupancyRate :: real
  coHostFeePercent :: real
  cleaningFeePerStay :: real
  avgStaysPerMonth :: real
  monthlyUtilities :: real
  annualPropertyTax :: real
  annualInsurance :: real

record ManualExpense =
  id_str :: string
  name :: string
  estimatedCost :: real
  timing :: ExpenseTiming

record Property =
  type :: PropertyType
  shared :: SharedDetails
  ltr :: "LTRDetails option"
  str :: "STRDetails option"
  manualExpenses :: "ManualExpense list option"

record FinancialMetrics =
  monthlyMortgagePayment :: number
  grossMonthlyIncome :: number
  totalMonthlyExpenses :: number
  netMonthlyIncome :: number
  netMonthlyCashFlow :: number
  initialCashInvested :: number
  cashOnCashReturn :: number
  capRate :: number
  annualGrossIncome :: number
  annualNetCashFlow :: number
  totalManualCapEx :: number
  immediateCapEx :: number
  year1CapEx :: number
  adjustedInitialCashInvested :: number
  adjustedCashOnCashReturn :: number
  adjustedCapRate :: number

record PropertyAnalysis = Property +
  metrics :: FinancialMetrics


section \<open>calculateMetrics and calculateValuation (client/src/lib/calculations)\<close>

text \<open>Each \<open>const\<close> and \<open>let\<close> of the function body is a definition of its own, in the
  order of the source. A local whose name is also a field of \<open>FinancialMetrics\<close> carries
  the suffix \<open>_local\<close>.\<close>

definition monthlyRate :: "Property \<Rightarrow> number" where
  "monthlyRate p = Num (interestRate (shared p)) / Num 100 / Num 12"

definition numPayments :: "Property \<Rightarrow> number" where
  "numPayments p = Num (loanTermYears (shared p)) * Num 12"

definition activeLoanBalance :: "Property \<Rightarrow> number" where
  "activeLoanBalance p =
     (if Num 0 < Num (loanRemaining (shared p))
      then Num (loanRemaining (shared p)) else Num (loanAmount (shared p)))"

definition monthlyMortgagePayment_local :: "Property \<Rightarrow> number" where
  "monthlyMortgagePayment_local p =
     (if Num 0 < activeLoanBalance p \<and> Num 0 < monthlyRate p
      then activeLoanBalance p *
             (monthlyRate p * Math_pow (Num 1 + monthlyRate p) (numPayments p)) /
             (Math_pow (Num 1 + monthlyRate p) (numPayments p) - Num 1)
      else Num 0)"

text \<open>The branch on the variant assigns \<open>grossMonthlyIncome\<close> and
  \<open>totalMonthlyExpenses\<close> together; the pair holds the two.\<close>

definition incomeAndExpenses :: "Property \<Rightarrow> number \<times> number" where
  "incomeAndExpenses p =
     (if type p = LTR \<and> ltr p \<noteq> None then
        (let l = the (ltr p);
             gross = Num (grossRentPerMonth l) * Num (numberOfUnits l);
             pmFee = gross * (Num (pmFeePercent l) / Num 100);
             monthlyTax = Num (LTRDetails.annualPropertyTax l) / Num 12;
             monthlyInsurance = Num (LTRDetails.annualInsurance l) / Num 12
         in (gross, pmFee + monthlyTax + monthlyInsurance + Num (monthlyRepairReserve l)))
      else if type p = STR_type \<and> str p \<noteq> None then
        (let s = the (str p);
             bookedNights = Num (daysInMonth s) * (Num (occupancyRate s) / Num 100);
             gross = bookedNights * Num (dailyRate s);
             coHostFee = gross * (Num (coHostFeePercent s) / Num 100);
             cleaningCosts = Num (cleaningFeePerStay s) * Num (avgStaysPerMonth s);
             monthlyTax = Num (STRDetails.annualPropertyTax s) / Num 12;
             monthlyInsurance = Num (STRDetails.annualInsurance s) / Num 12
         in (gross,
             coHostFee + cleaningCosts + monthlyTax + monthlyInsurance
               + Num (monthlyUtilities s)))
      else (Num 0, Num 0))"

definition grossMonthlyIncome_local :: "Property \<Rightarrow> number" where
  "grossMonthlyIncome_local p = fst (incomeAndExpenses p)"

definition totalMonthlyExpenses_local :: "Property \<Rightarrow> number" where
  "totalMonthlyExpenses_local p = snd (incomeAndExpenses p)"

definition netMonthlyIncome_local :: "Property \<Rightarrow> number" where
  "netMonthlyIncome_local p = grossMonthlyIncome_local p - totalMonthlyExpenses_local p"

definition netMonthlyCashFlow_local :: "Property \<Rightarrow> number" where
  "netMonthlyCashFlow_local p = netMonthlyIncome_local p - monthlyMortgagePayment_local p"

definition downPayment :: "Property \<Rightarrow> number" where
  "downPayment p =
     (if Num 0 < Num (downpayment (shared p)) then Num (downpayment (shared p))
      else Num (purchasePrice (shared p)) - Num (loanAmount (shared p)))"

definition initialCashInvested_local :: "Property \<Rightarrow> number" where
  "initialCashInvested_local p = downPayment p + Num (closingCosts (shared p))"

definition annualNetCashFlow_local :: "Property \<Rightarrow> number" where
  "annualNetCashFlow_local p = netMonthlyCashFlow_local p * Num 12"

definition cashOnCashReturn_local :: "Property \<Rightarrow> number" where
  "cashOnCashReturn_local p =
     (if Num 0 < initialCashInvested_local p
      then (annualNetCashFlow_local p / initialCashInvested_local p) * Num 100
      else Num 0)"

definition annualNOI :: "Property \<Rightarrow> number" where
  "annualNOI p = netMonthlyIncome_local p * Num 12"

definition capRate_local :: "Property \<Rightarrow> number" where
  "capRate_local p =
     (if Num 0 < Num (purchasePrice (shared p))
      then (annualNOI p / Num (purchasePrice (shared p))) * Num 100
      else Num 0)"

text \<open>\<open>property.manualExpenses || []\<close>\<close>

definition manualExpenses_local :: "Property \<Rightarrow> ManualExpense list" where
  "manualExpenses_local p = (case manualExpenses p of Some es \<Rightarrow> es | None \<Rightarrow> [])"

definition immediateCapEx_local :: "Property \<Rightarrow> number" where
  "immediateCapEx_local p =
     reduce_sum (\<lambda>e. Num (estimatedCost e))
       (filter (\<lambda>e. timing e = IMMEDIATE) (manualExpenses_local p))"

definition year1CapEx_local :: "Property \<Rightarrow> number" where
  "year1CapEx_local p =
     reduce_sum (\<lambda>e. Num (estimatedCost e))
       (filter (\<lambda>e. timing e = YEAR_1) (manualExpenses_local p))"

definition totalManualCapEx_local :: "Property \<Rightarrow> number" where
  "totalManualCapEx_local p = immediateCapEx_local p + year1CapEx_local p"

definition adjustedInitialCashInvested_local :: "Property \<Rightarrow> number" where
  "adjustedInitialCashInvested_local p = initialCashInvested_local p + immediateCapEx_local p"

definition adjustedAnnualNetCashFlow :: "Property \<Rightarrow> number" where
  "adjustedAnnualNetCashFlow p = annualNetCashFlow_local p - year1CapEx_local p"

definition adjustedCashOnCashReturn_local :: "Property \<Rightarrow> number" where
  "adjustedCashOnCashReturn_local p =
     (if Num 0 < adjustedInitialCashInvested_local p
      then (adjustedAnnualNetCashFlow p / adjustedInitialCashInvested_local p) * Num 100
      else Num 0)"

definition totalPropertyCost :: "Property \<Rightarrow> number" where
  "totalPropertyCost p = Num (purchasePrice (shared p)) + immediateCapEx_local p"

definition adjustedCapRate_local :: "Property \<Rightarrow> number" where
  "adjustedCapRate_local p =
     (if Num 0 < totalPropertyCost p
      then (annualNOI p / totalPropertyCost p) * Num 100
      else Num 0)"

definition hasManualCapEx :: "Property \<Rightarrow> bool" where
  "hasManualCapEx p = (Num 0 < totalManualCapEx_local p)"

definition finalInitialCashInvested :: "Property \<Rightarrow> number" where
  "finalInitialCashInvested p =
     (if hasManualCapEx p then adjustedInitialCashInvested_local p
      else initialCashInvested_local p)"

definition finalCashOnCashReturn :: "Property \<Rightarrow> number" where
  "finalCashOnCashReturn p =
     (if hasManualCapEx p then adjustedCashOnCashReturn_local p else cashOnCashReturn_local p)"

definition finalCapRate :: "Property \<Rightarrow> number" where
  "finalCapRate p = (if hasManualCapEx p then adjustedCapRate_local p else capRate_local p)"

definition finalAnnualNetCashFlow :: "Property \<Rightarrow> number" where
  "finalAnnualNetCashFlow p =
     (if hasManualCapEx p then adjustedAnnualNetCashFlow p else annualNetCashFlow_local p)"

definition adjustedNetMonthlyCashFlow :: "Property \<Rightarrow> number" where
  "adjustedNetMonthlyCashFlow p = netMonthlyCashFlow_local p - (year1CapEx_local p / Num 12)"

definition finalNetMonthlyCashFlow :: "Property \<Rightarrow> number" where
  "finalNetMonthlyCashFlow p =
     (if hasManualCapEx p then adjustedNetMonthlyCashFlow p else netMonthlyCashFlow_local p)"

definition calculateMetrics :: "Property \<Rightarrow> FinancialMetrics" where
  "calculateMetrics p =
     \<lparr> monthlyMortgagePayment = round2 (monthlyMortgagePayment_local p),
       grossMonthlyIncome = round2 (grossMonthlyIncome_local p),
       totalMonthlyExpenses = round2 (totalMonthlyExpenses_local p),
       netMonthlyIncome = round2 (netMonthlyIncome_local p),
       netMonthlyCashFlow = round2 (finalNetMonthlyCashFlow p),
       initialCashInvested = round2 (finalInitialCashInvested p),
       cashOnCashReturn = round2 (finalCashOnCashReturn p),
       capRate = round2 (finalCapRate p),
       annualGrossIncome = Math_round (grossMonthlyIncome_local p * Num 12 * Num 100) / Num 100,
       annualNetCashFlow = round2 (finalAnnualNetCashFlow p),
       totalManualCapEx = round2 (totalManualCapEx_local p),
       immediateCapEx = round2 (immediateCapEx_local p),
       year1CapEx = round2 (year1CapEx_local p),
       adjustedInitialCashInvested = round2 (adjustedInitialCashInvested_local p),
       adjustedCashOnCashReturn = round2 (adjustedCashOnCashReturn_local p),
       adjustedCapRate = round2 (adjustedCapRate_local p) \<rparr>"

definition calculateValuation :: "number \<Rightarrow> number \<Rightarrow> number" where
  "calculateValuation annualNOI_arg marketCapRate =
     (if marketCapRate \<le> Num 0 then Num 0
      else annualNOI_arg / (marketCapRate / Num 100))"


section \<open>The portfolio totals (client/src/components/Dashboard)\<close>

record Totals =
  totalValue :: number
  totalCashInvested :: number
  totalAnnualCashFlow :: number
  totalMonthlyCashFlow :: number
  totalAnnualNOI :: number
  avgCoC :: number
  avgCapRate :: number
  ltrCount :: nat
  strCount :: nat
  portfolioValuation :: number
  equityGain :: number

definition totals :: "PropertyAnalysis list \<Rightarrow> number \<Rightarrow> Totals" where
  "totals portfolio marketCapRate =
     (let totalValue_l = reduce_sum (\<lambda>p. Num (purchasePrice (shared p))) portfolio;
          totalCashInvested_l = reduce_sum (\<lambda>p. initialCashInvested (metrics p)) portfolio;
          totalAnnualCashFlow_l = reduce_sum (\<lambda>p. annualNetCashFlow (metrics p)) portfolio;
          totalMonthlyCashFlow_l = reduce_sum (\<lambda>p. netMonthlyCashFlow (metrics p)) portfolio;
          totalAnnualNOI_l = reduce_sum (\<lambda>p. netMonthlyIncome (metrics p) * Num 12) portfolio;
          avgCoC_l =
            (if 0 < length portfolio
             then reduce_sum (\<lambda>p. cashOnCashReturn (metrics p)) portfolio
                    / Num (real (length portfolio))
             else Num 0);
          avgCapRate_l =
            (if 0 < length portfolio
             then reduce_sum (\<lambda>p. capRate (metrics p)) portfolio
                    / Num (real (length portfolio))
             else Num 0);
          ltrCount_l = length (filter (\<lambda>p. type p = LTR) portfolio);
          strCount_l = length (filter (\<lambda>p. type p = STR_type) portfolio);
          portfolioValuation_l = calculateValuation totalAnnualNOI_l marketCapRate;
          equityGain_l = portfolioValuation_l - totalValue_l
      in \<lparr> totalValue = totalValue_l,
           totalCashInvested = totalCashInvested_l,
           totalAnnualCashFlow = totalAnnualCashFlow_l,
           totalMonthlyCashFlow = totalMonthlyCashFlow_l,
           totalAnnualNOI = totalAnnualNOI_l,
           avgCoC = avgCoC_l,
           avgCapRate = avgCapRate_l,
           ltrCount = ltrCount_l,
           strCount = strCount_l,
           portfolioValuation = portfolioValuation_l,
           equityGain = equityGain_l \<rparr>)"

text \<open>\<open>handleAddProperty\<close> (client/src/pages/home) builds an entry of the portfolio:
  \<open>{ ...property, metrics: calculateMetrics(property) }\<close>.\<close>

definition analysis_of :: "Property \<Rightarrow> PropertyAnalysis" where
  "analysis_of p =
     \<lparr> type = type p, shared = shared p, ltr = ltr p, str = str p,
       manualExpenses = manualExpenses p, metrics = calculateMetrics p \<rparr>"


section \<open>Binary64 arithmetic\<close>

text \<open>
  The numbers of JavaScript are IEEE 754 binary64 values: every arithmetic operation
  returns the exact result rounded to the nearest value with a 53-bit significand, a tie
  going to the even significand, and a result of magnitude \<open>2^1024\<close> or more becomes an
  infinity. \<open>round64\<close> is that rounding (exponents from \<open>-1022\<close> to \<open>1023\<close>, subnormal
  values included, the sign of zero left out), and the operations with the suffix \<open>64\<close>
  are the exact operations followed by it.
\<close>

definition rne :: "real \<Rightarrow> int" where
  "rne r =
     (let f = \<lfloor>r\<rfloor>; d = r - of_int f
      in if d < 1 / 2 then f else if 1 / 2 < d then f + 1 else if even f then f else f + 1)"

fun round64 :: "number \<Rightarrow> number" where
  "round64 (Num x) =
     (if x = 0 then Num 0
      else
        (let e = max \<lfloor>log 2 \<bar>x\<bar>\<rfloor> (- 1022) - 52;
             y = of_int (rne (x / 2 powi e)) * 2 powi e
         in if 2 powi 1024 \<le> \<bar>y\<bar> then (if 0 < x then PosInf else NegInf) else Num y))"
| "round64 PosInf = PosInf"
| "round64 NegInf = NegInf"
| "round64 NaN = NaN"

text \<open>The binary64 value of a decimal input.\<close>

definition dbl :: "real \<Rightarrow> number" where
  "dbl x = round64 (Num x)"

definition add64 :: "number \<Rightarrow> number \<Rightarrow> number" where
  "add64 a b = round64 (a + b)"

definition sub64 :: "number \<Rightarrow> number \<Rightarrow> number" where
  "sub64 a b = round64 (a - b)"

definition mul64 :: "number \<Rightarrow> number \<Rightarrow> number" where
  "mul64 a b = round64 (a * b)"

definition div64 :: "number \<Rightarrow> number \<Rightarrow> number" where
  "div64 a b = round64 (a / b)"

text \<open>ECMAScript leaves the accuracy of \<open>Math.pow\<close> to the implementation; here it is the
  correctly rounded power. The statements below use it only where the power is itself a
  binary64 value (\<open>1 ^ n = 1\<close> and \<open>1.0625 ^ 12\<close>).\<close>

definition Math_pow64 :: "number \<Rightarrow> number \<Rightarrow> number" where
  "Math_pow64 b e = round64 (Math_pow b e)"

text \<open>\<open>Math.round\<close> of a binary64 value is an integer that is a binary64 value, so
  \<open>Math_round\<close> needs no rounding of its own.\<close>

definition round2_64 :: "number \<Rightarrow> number" where
  "round2_64 v = div64 (Math_round (mul64 v (Num 100))) (Num 100)"

definition reduce_sum64 :: "('a \<Rightarrow> number) \<Rightarrow> 'a list \<Rightarrow> number" where
  "reduce_sum64 f xs = foldl (\<lambda>sum e. add64 sum (f e)) (Num 0) xs"


section \<open>calculateMetrics in binary64 arithmetic\<close>

text \<open>The same function body once more, every operation being the binary64 one and
  every input field being read as its binary64 value. The constants \<open>0\<close>, \<open>1\<close>, \<open>12\<close> and
  \<open>100\<close> are binary64 values as they stand.\<close>

definition monthlyRate64 :: "Property \<Rightarrow> number" where
  "monthlyRate64 p = div64 (div64 (dbl (interestRate (shared p))) (Num 100)) (Num 12)"

definition numPayments64 :: "Property \<Rightarrow> number" where
  "numPayments64 p = mul64 (dbl (loanTermYears (shared p))) (Num 12)"

definition activeLoanBalance64 :: "Property \<Rightarrow> number" where
  "activeLoanBalance64 p =
     (if Num 0 < dbl (loanRemaining (shared p))
      then dbl (loanRemaining (shared p)) else dbl (loanAmount (shared p)))"

definition monthlyMortgagePayment_local64 :: "Property \<Rightarrow> number" where
  "monthlyMortgagePayment_local64 p =
     (if Num 0 < activeLoanBalance64 p \<and> Num 0 < monthlyRate64 p
      then div64
             (mul64 (activeLoanBalance64 p)
                (mul64 (monthlyRate64 p)
                   (Math_pow64 (add64 (Num 1) (monthlyRate64 p)) (numPayments64 p))))
             (sub64 (Math_pow64 (add64 (Num 1) (monthlyRate64 p)) (numPayments64 p)) (Num 1))
      else Num 0)"

definition incomeAndExpenses64 :: "Property \<Rightarrow> number \<times> number" where
  "incomeAndExpenses64 p =
     (if type p = LTR \<and> ltr p \<noteq> None then
        (let l = the (ltr p);
             gross = mul64 (dbl (grossRentPerMonth l)) (dbl (numberOfUnits l));
             pmFee = mul64 gross (div64 (dbl (pmFeePercent l)) (Num 100));
             monthlyTax = div64 (dbl (LTRDetails.annualPropertyTax l)) (Num 12);
             monthlyInsurance = div64 (dbl (LTRDetails.annualInsurance l)) (Num 12)
         in (gross,
             add64 (add64 (add64 pmFee monthlyTax) monthlyInsurance)
               (dbl (monthlyRepairReserve l))))
      else if type p = STR_type \<and> str p \<noteq> None then
        (let s = the (str p);
             bookedNights = mul64 (dbl (daysInMonth s)) (div64 (dbl (occupancyRate s)) (Num 100));
             gross = mul64 bookedNights (dbl (dailyRate s));
             coHostFee = mul64 gross (div64 (dbl (coHostFeePercent s)) (Num 100));
             cleaningCosts = mul64 (dbl (cleaningFeePerStay s)) (dbl (avgStaysPerMonth s));
             monthlyTax = div64 (dbl (STRDetails.annualPropertyTax s)) (Num 12);
             monthlyInsurance = div64 (dbl (STRDetails.annualInsurance s)) (Num 12)
         in (gross,
             add64 (add64 (add64 (add64 coHostFee cleaningCosts) monthlyTax) monthlyInsurance)
               (dbl (monthlyUtilities s))))
      else (Num 0, Num 0))"

definition grossMonthlyIncome_local64 :: "Property \<Rightarrow> number" where
  "grossMonthlyIncome_local64 p = fst (incomeAndExpenses64 p)"

definition totalMonthlyExpenses_local64 :: "Property \<Rightarrow> number" where
  "totalMonthlyExpenses_local64 p = snd (incomeAndExpenses64 p)"

definition netMonthlyIncome_local64 :: "Property \<Rightarrow> number" where
  "netMonthlyIncome_local64 p =
     sub64 (grossMonthlyIncome_local64 p) (totalMonthlyExpenses_local64 p)"

definition netMonthlyCashFlow_local64 :: "Property \<Rightarrow> number" where
  "netMonthlyCashFlow_local64 p =
     sub64 (netMonthlyIncome_local64 p) (monthlyMortgagePayment_local64 p)"

definition downPayment64 :: "Property \<Rightarrow> number" where
  "downPayment64 p =
     (if Num 0 < dbl (downpayment (shared p)) then dbl (downpayment (shared p))
      else sub64 (dbl (purchasePrice (shared p))) (dbl (loanAmount (shared p))))"

definition initialCashInvested_local64 :: "Property \<Rightarrow> number" where
  "initialCashInvested_local64 p = add64 (downPayment64 p) (dbl (closingCosts (shared p)))"

definition annualNetCashFlow_local64 :: "Property \<Rightarrow> number" where
  "annualNetCashFlow_local64 p = mul64 (netMonthlyCashFlow_local64 p) (Num 12)"

definition cashOnCashReturn_local64 :: "Property \<Rightarrow> number" where
  "cashOnCashReturn_local64 p =
     (if Num 0 < initialCashInvested_local64 p
      then mul64 (div64 (annualNetCashFlow_local64 p) (initialCashInvested_local64 p)) (Num 100)
      else Num 0)"

definition annualNOI64 :: "Property \<Rightarrow> number" where
  "annualNOI64 p = mul64 (netMonthlyIncome_local64 p) (Num 12)"

definition capRate_local64 :: "Property \<Rightarrow> number" where
  "capRate_local64 p =
     (if Num 0 < dbl (purchasePrice (shared p))
      then mul64 (div64 (annualNOI64 p) (dbl (purchasePrice (shared p)))) (Num 100)
      else Num 0)"

definition immediateCapEx_local64 :: "Property \<Rightarrow> number" where
  "immediateCapEx_local64 p =
     reduce_sum64 (\<lambda>e. dbl (estimatedCost e))
       (filter (\<lambda>e. timing e = IMMEDIATE) (manualExpenses_local p))"

definition year1CapEx_local64 :: "Property \<Rightarrow> number" where
  "year1CapEx_local64 p =
     reduce_sum64 (\<lambda>e. dbl (estimatedCost e))
       (filter (\<lambda>e. timing e = YEAR_1) (manualExpenses_local p))"

definition totalManualCapEx_local64 :: "Property \<Rightarrow> number" where
  "totalManualCapEx_local64 p = add64 (immediateCapEx_local64 p) (year1CapEx_local64 p)"

definition adjustedInitialCashInvested_local64 :: "Property \<Rightarrow> number" where
  "adjustedInitialCashInvested_local64 p =
     add64 (initialCashInvested_local64 p) (immediateCapEx_local64 p)"

definition adjustedAnnualNetCashFlow64 :: "Property \<Rightarrow> number" where
  "adjustedAnnualNetCashFlow64 p = sub64 (annualNetCashFlow_local64 p) (year1CapEx_local64 p)"

definition adjustedCashOnCashReturn_local64 :: "Property \<Rightarrow> number" where
  "adjustedCashOnCashReturn_local64 p =
     (if Num 0 < adjustedInitialCashInvested_local64 p
      then mul64 (div64 (adjustedAnnualNetCashFlow64 p) (adjustedInitialCashInvested_local64 p))
             (Num 100)
      else Num 0)"

definition totalPropertyCost64 :: "Property \<Rightarrow> number" where
  "totalPropertyCost64 p = add64 (dbl (purchasePrice (shared p))) (immediateCapEx_local64 p)"

definition adjustedCapRate_local64 :: "Property \<Rightarrow> number" where
  "adjustedCapRate_local64 p =
     (if Num 0 < totalPropertyCost64 p
      then mul64 (div64 (annualNOI64 p) (totalPropertyCost64 p)) (Num 100)
      else Num 0)"

definition hasManualCapEx64 :: "Property \<Rightarrow> bool" where
  "hasManualCapEx64 p = (Num 0 < totalManualCapEx_local64 p)"

definition finalInitialCashInvested64 :: "Property \<Rightarrow> number" where
  "finalInitialCashInvested64 p =
     (if hasManualCapEx64 p then adjustedInitialCashInvested_local64 p
      else initialCashInvested_local64 p)"

definition finalCashOnCashReturn64 :: "Property \<Rightarrow> number" where
  "finalCashOnCashReturn64 p =
     (if hasManualCapEx64 p then adjustedCashOnCashReturn_local64 p
      else cashOnCashReturn_local64 p)"

definition finalCapRate64 :: "Property \<Rightarrow> number" where
  "finalCapRate64 p =
     (if hasManualCapEx64 p then adjustedCapRate_local64 p else capRate_local64 p)"

definition finalAnnualNetCashFlow64 :: "Property \<Rightarrow> number" where
  "finalAnnualNetCashFlow64 p =
     (if hasManualCapEx64 p then adjustedAnnualNetCashFlow64 p
      else annualNetCashFlow_local64 p)"

definition adjustedNetMonthlyCashFlow64 :: "Property \<Rightarrow> number" where
  "adjustedNetMonthlyCashFlow64 p =
     sub64 (netMonthlyCashFlow_local64 p) (div64 (year1CapEx_local64 p) (Num 12))"

definition finalNetMonthlyCashFlow64 :: "Property \<Rightarrow> number" where
  "finalNetMonthlyCashFlow64 p =
     (if hasManualCapEx64 p then adjustedNetMonthlyCashFlow64 p
      else netMonthlyCashFlow_local64 p)"

definition calculateMetrics64 :: "Property \<Rightarrow> FinancialMetrics" where
  "calculateMetrics64 p =
     \<lparr> monthlyMortgagePayment = round2_64 (monthlyMortgagePayment_local64 p),
       grossMonthlyIncome = round2_64 (grossMonthlyIncome_local64 p),
       totalMonthlyExpenses = round2_64 (totalMonthlyExpenses_local64 p),
       netMonthlyIncome = round2_64 (netMonthlyIncome_local64 p),
       netMonthlyCashFlow = round2_64 (finalNetMonthlyCashFlow64 p),
       initialCashInvested = round2_64 (finalInitialCashInvested64 p),
       cashOnCashReturn = round2_64 (finalCashOnCashReturn64 p),
       capRate = round2_64 (finalCapRate64 p),
       annualGrossIncome =
         div64 (Math_round (mul64 (mul64 (grossMonthlyIncome_local64 p) (Num 12)) (Num 100)))
           (Num 100),
       annualNetCashFlow = round2_64 (finalAnnualNetCashFlow64 p),
       totalManualCapEx = round2_64 (totalManualCapEx_local64 p),
       immediateCapEx = round2_64 (immediateCapEx_local64 p),
       year1CapEx = round2_64 (year1CapEx_local64 p),
       adjustedInitialCashInvested = round2_64 (adjustedInitialCashInvested_local64 p),
       adjustedCashOnCashReturn = round2_64 (adjustedCashOnCashReturn_local64 p),
       adjustedCapRate = round2_64 (adjustedCapRate_local64 p) \<rparr>"


section \<open>Notions used in the statements\<close>

definition is_finite :: "number \<Rightarrow> bool" where
  "is_finite x = (case x of Num r \<Rightarrow> True | _ \<Rightarrow> False)"

definition finite_metrics :: "FinancialMetrics \<Rightarrow> bool" where
  "finite_metrics m =
     (is_finite (monthlyMortgagePayment m) \<and> is_finite (grossMonthlyIncome m) \<and>
      is_finite (totalMonthlyExpenses m) \<and> is_finite (netMonthlyIncome m) \<and>
      is_finite (netMonthlyCashFlow m) \<and> is_finite (initialCashInvested m) \<and>
      is_finite (cashOnCashReturn m) \<and> is_finite (capRate m) \<and>
      is_finite (annualGrossIncome m) \<and> is_finite (annualNetCashFlow m) \<and>
      is_finite (totalManualCapEx m) \<and> is_finite (immediateCapEx m) \<and>
      is_finite (year1CapEx m) \<and> is_finite (adjustedInitialCashInvested m) \<and>
      is_finite (adjustedCashOnCashReturn m) \<and> is_finite (adjustedCapRate m))"

text \<open>The active principal as a real number: the remaining balance when it is positive,
  the original loan amount otherwise.\<close>

definition balance_of :: "Property \<Rightarrow> real" where
  "balance_of p =
     (if 0 < loanRemaining (shared p) then loanRemaining (shared p) else loanAmount (shared p))"

text \<open>The annuity formula of the specification,
  \<open>payment = principal * r * (1+r)^n / ((1+r)^n - 1)\<close>, over the reals.\<close>

definition annuity :: "real \<Rightarrow> real \<Rightarrow> real \<Rightarrow> real" where
  "annuity P r n = P * r * (1 + r) powr n / ((1 + r) powr n - 1)"

text \<open>Rounding to two decimal places as the specification words it: the nearest cent,
  a value halfway between two cents going to the upper one.\<close>

definition nearest_cent_half_up :: "real \<Rightarrow> real" where
  "nearest_cent_half_up x =
     (let below = \<lfloor>x * 100\<rfloor>
      in if x * 100 - of_int below < 1 / 2 then of_int below / 100
         else (of_int below + 1) / 100)"

fun to_cents :: "number \<Rightarrow> number" where
  "to_cents (Num x) = Num (nearest_cent_half_up x)"
| "to_cents PosInf = PosInf"
| "to_cents NegInf = NegInf"
| "to_cents NaN = NaN"

text \<open>A property with its interest rate replaced, the other inputs held constant.\<close>

definition with_interestRate :: "Property \<Rightarrow> real \<Rightarrow> Property" where
  "with_interestRate p i = p \<lparr> shared := (shared p) \<lparr> interestRate := i \<rparr> \<rparr>"

text \<open>The plain sum of a list of numbers.\<close>

primrec plain_sum :: "number list \<Rightarrow> number" where
  "plain_sum [] = Num 0"
| "plain_sum (x # xs) = x + plain_sum xs"


section \<open>Example inputs\<close>

text \<open>The two default properties of shared/schema.\<close>

definition DEFAULT_LTR_PROPERTY :: Property where
  "DEFAULT_LTR_PROPERTY =
     \<lparr> type = LTR,
       shared = \<lparr> SharedDetails.id_str = [], SharedDetails.name = [], marketValue = 0,
                  purchasePrice = 0, downpayment = 0, loanAmount = 0, loanRemaining = 0,
                  interestRate = 0, loanTermYears = 30, closingCosts = 0 \<rparr>,
       ltr = Some \<lparr> grossRentPerMonth = 0, buildingType = SFH, numberOfUnits = 1,
                     pmFeePercent = 9, LTRDetails.annualPropertyTax = 0,
                     LTRDetails.annualInsurance = 0, monthlyRepairReserve = 50,
                     targetVeteranOccupancyPercent = 50,
                     currentVeteranOccupancyPercent = Some 0 \<rparr>,
       str = None,
       manualExpenses = Some [] \<rparr>"

definition DEFAULT_STR_PROPERTY :: Property where
  "DEFAULT_STR_PROPERTY =
     \<lparr> type = STR_type,
       shared = \<lparr> SharedDetails.id_str = [], SharedDetails.name = [], marketValue = 0,
                  purchasePrice = 0, downpayment = 0, loanAmount = 0, loanRemaining = 0,
                  interestRate = 0, loanTermYears = 30, closingCosts = 0 \<rparr>,
       ltr = None,
       str = Some \<lparr> dailyRate = 0, daysInMonth = 30, occupancyRate = 0, coHostFeePercent = 0,
                     cleaningFeePerStay = 0, avgStaysPerMonth = 0, monthlyUtilities = 0,
                     annualPropertyTax = 0, annualInsurance = 0 \<rparr>,
       manualExpenses = Some [] \<rparr>"

text \<open>The long-term rental of the specification's worked example: rent 1500 for each of
  2 units, management fee 10 percent, tax 2400 and insurance 1200 a year, reserve 50 a
  month, a loan of 200000 at 6 percent over 30 years, no manual expenses.\<close>

definition worked_ltr :: LTRDetails where
  "worked_ltr =
     \<lparr> grossRentPerMonth = 1500, buildingType = DUPLEX, numberOfUnits = 2,
       pmFeePercent = 10, LTRDetails.annualPropertyTax = 2400,
       LTRDetails.annualInsurance = 1200, monthlyRepairReserve = 50,
       targetVeteranOccupancyPercent = 50, currentVeteranOccupancyPercent = Some 0 \<rparr>"

definition worked_example :: Property where
  "worked_example =
     DEFAULT_LTR_PROPERTY
       \<lparr> shared := (shared DEFAULT_LTR_PROPERTY)
            \<lparr> purchasePrice := 250000, loanAmount := 200000, interestRate := 6 \<rparr>,
         ltr := Some worked_ltr \<rparr>"



definition roof_year1 :: ManualExpense where
  "roof_year1 = \<lparr> id_str = ''e1'', name = ''Roof'', estimatedCost = 1200, timing = YEAR_1 \<rparr>"

text \<open>The worked example bought without a loan, with and without a year-1 expense of
  1200.\<close>

definition example_cash :: Property where
  "example_cash =
     worked_example \<lparr> shared := (shared worked_example) \<lparr> loanAmount := 0, downpayment := 250000 \<rparr> \<rparr>"

definition example_year1 :: Property where
  "example_year1 = example_cash \<lparr> manualExpenses := Some [roof_year1] \<rparr>"

text \<open>The worked example with a loan term of 0 years.\<close>

definition zero_term_loan :: Property where
  "zero_term_loan =
     worked_example \<lparr> shared := (shared worked_example) \<lparr> loanTermYears := 0 \<rparr> \<rparr>"

text \<open>Two rentals with net income 1000 a month and an immediate renovation of 100000, bought
  for 100000 and for 100100.\<close>

definition renovation :: ManualExpense where
  "renovation =
     \<lparr> id_str = ''e2'', name = ''Renovation'', estimatedCost = 100000, timing = IMMEDIATE \<rparr>"

definition bought_at :: "real \<Rightarrow> Property" where
  "bought_at price =
     DEFAULT_LTR_PROPERTY
       \<lparr> shared := (shared DEFAULT_LTR_PROPERTY) \<lparr> purchasePrice := price, downpayment := 20000 \<rparr>,
         ltr := Some \<lparr> grossRentPerMonth = 1000, buildingType = SFH, numberOfUnits = 1,
                        pmFeePercent = 0, LTRDetails.annualPropertyTax = 0,
                        LTRDetails.annualInsurance = 0, monthlyRepairReserve = 0,
                        targetVeteranOccupancyPercent = 50,
                        currentVeteranOccupancyPercent = None \<rparr>,
         manualExpenses := Some [renovation] \<rparr>"

text \<open>A long-term rental whose \<open>ltr\<close> payload is absent, with a loan of 4095/32768 at
  1200 percent over 1 year: the monthly rate is 1, the payment is exactly 0.125.\<close>

definition degraded_tie :: Property where
  "degraded_tie =
     DEFAULT_LTR_PROPERTY
       \<lparr> shared := (shared DEFAULT_LTR_PROPERTY)
            \<lparr> loanAmount := 4095 / 32768, interestRate := 1200, loanTermYears := 1 \<rparr>,
         ltr := None \<rparr>"

text \<open>The worked example with its \<open>ltr\<close> payload absent and the year-1 expense.\<close>

definition degraded_loan :: Property where
  "degraded_loan = worked_example \<lparr> ltr := None, manualExpenses := Some [roof_year1] \<rparr>"

text \<open>A single-family rental as the input form submits it: one unit at the given rent and
  management fee, tax 2400 and insurance 1200 a year, reserve 50 a month, bought without
  a loan.\<close>

definition form_ltr :: "real \<Rightarrow> real \<Rightarrow> Property" where
  "form_ltr rent fee =
     DEFAULT_LTR_PROPERTY
       \<lparr> ltr := Some \<lparr> grossRentPerMonth = rent, buildingType = SFH, numberOfUnits = 1,
                      pmFeePercent = fee, LTRDetails.annualPropertyTax = 2400,
                      LTRDetails.annualInsurance = 1200, monthlyRepairReserve = 50,
                      targetVeteranOccupancyPercent = 50,
                      currentVeteranOccupancyPercent = Some 0 \<rparr> \<rparr>"

text \<open>Rent 1091 at a fee of 7.5 percent, without and with the year-1 expense of 1200, and
  rent 1511 at a fee of 9.5 percent.\<close>

definition rent_1091 :: Property where
  "rent_1091 = form_ltr 1091 (15 / 2)"

definition rent_1091_year1 :: Property where
  "rent_1091_year1 = rent_1091 \<lparr> manualExpenses := Some [roof_year1] \<rparr>"

definition rent_1511 :: Property where
  "rent_1511 = form_ltr 1511 (19 / 2)"

text \<open>The worked example at an interest rate of \<open>1e-13\<close> percent, and the worked example
  with a loan term of 1 year.\<close>

definition tiny_rate_loan :: Property where
  "tiny_rate_loan = with_interestRate worked_example (1 / 10 ^ 13)"

definition one_year_loan :: Property where
  "one_year_loan =
     worked_example \<lparr> shared := (shared worked_example) \<lparr> loanTermYears := 1 \<rparr> \<rparr>"


section \<open>Arithmetic of numbers\<close>

lemma minus_Num [simp]: "Num a - Num b = Num (a - b)"
  by (simp add: minus_number_def)

lemma minus_nonfinite [simp]:
  "PosInf - Num b = PosInf" "NegInf - Num b = NegInf" "NaN - x = NaN" "x - NaN = NaN"
  "Num a - PosInf = NegInf" "Num a - NegInf = PosInf"
  by (cases x; simp add: minus_number_def)+

lemma zero_minus: "Num 0 - x = - x"
  by (cases x) simp_all

lemma zero_plus [simp]: "Num 0 + x = x"
  by (cases x) simp_all

lemma plus_commute: "x + y = y + (x :: number)"
  by (cases x; cases y) simp_all

lemma plus_assoc: "(x + y) + z = x + (y + (z :: number))"
  by (cases x; cases y; cases z) simp_all

lemma is_finite_Num [simp]: "is_finite (Num r)"
  by (simp add: is_finite_def)

lemma not_finite [simp]: "\<not> is_finite PosInf" "\<not> is_finite NegInf" "\<not> is_finite NaN"
  by (simp_all add: is_finite_def)

lemma is_finite_iff: "is_finite x \<longleftrightarrow> (\<exists>r. x = Num r)"
  by (cases x) simp_all

lemma is_finite_plus: "is_finite x \<Longrightarrow> is_finite y \<Longrightarrow> is_finite (x + y)"
  by (auto simp: is_finite_iff)

lemma is_finite_minus: "is_finite x \<Longrightarrow> is_finite y \<Longrightarrow> is_finite (x - y)"
  by (auto simp: is_finite_iff)

lemma is_finite_times: "is_finite x \<Longrightarrow> is_finite y \<Longrightarrow> is_finite (x * y)"
  by (auto simp: is_finite_iff)

lemma is_finite_divide_Num: "is_finite x \<Longrightarrow> c \<noteq> 0 \<Longrightarrow> is_finite (x / Num c)"
  by (auto simp: is_finite_iff)

lemma is_finite_divide_pos: "is_finite x \<Longrightarrow> Num 0 < y \<Longrightarrow> is_finite y \<Longrightarrow> is_finite (x / y)"
  by (auto simp: is_finite_iff)

lemma round2_Num: "round2 (Num x) = Num (of_int \<lfloor>x * 100 + 1 / 2\<rfloor> / 100)"
  by (simp add: round2_def)

lemma round2_nonfinite [simp]:
  "round2 PosInf = PosInf" "round2 NegInf = NegInf" "round2 NaN = NaN"
  by (simp_all add: round2_def)

lemma is_finite_round2: "is_finite x \<Longrightarrow> is_finite (round2 x)"
  by (cases x) (simp_all add: round2_Num)

lemma round2_zero [simp]: "round2 (Num 0) = Num 0"
  by (simp add: round2_Num)

lemma reduce_sum_Num_aux:
  "foldl (\<lambda>sum e. sum + Num (f e)) (Num a) xs = Num (a + sum_list (map f xs))"
  by (induction xs arbitrary: a) (simp_all add: add.assoc)

lemma reduce_sum_Num: "reduce_sum (\<lambda>e. Num (f e)) xs = Num (sum_list (map f xs))"
  by (simp add: reduce_sum_def reduce_sum_Num_aux)

lemma reduce_sum_plain_aux: "foldl (\<lambda>sum e. sum + f e) a xs = a + plain_sum (map f xs)"
proof (induction xs arbitrary: a)
  case Nil
  show ?case by (cases a) simp_all
next
  case (Cons x xs)
  then show ?case by (simp add: plus_assoc)
qed

lemma reduce_sum_plain: "reduce_sum f xs = plain_sum (map f xs)"
  by (simp add: reduce_sum_def reduce_sum_plain_aux)

section \<open>Rounding to cents\<close>

lemma nearest_cent_floor: "nearest_cent_half_up x = of_int \<lfloor>x * 100 + 1 / 2\<rfloor> / 100"
proof -
  define b where "b = \<lfloor>x * 100\<rfloor>"
  have b: "of_int b \<le> x * 100" "x * 100 < of_int b + 1"
    unfolding b_def by linarith+
  show ?thesis
  proof (cases "x * 100 - of_int b < 1 / 2")
    case True
    then have "\<lfloor>x * 100 + 1 / 2\<rfloor> = b"
      using b by (intro floor_unique) simp_all
    with True show ?thesis
      by (simp add: nearest_cent_half_up_def b_def)
  next
    case False
    then have "\<lfloor>x * 100 + 1 / 2\<rfloor> = b + 1"
      using b by (intro floor_unique) simp_all
    with False show ?thesis
      by (simp add: nearest_cent_half_up_def b_def)
  qed
qed

lemma nearest_cent_zero [simp]: "nearest_cent_half_up 0 = 0"
  by (simp add: nearest_cent_half_up_def)

lemma round2_to_cents: "round2 x = to_cents x"
  by (cases x) (simp_all add: round2_Num nearest_cent_floor)

section \<open>The locals of calculateMetrics\<close>

lemma monthlyRate_Num: "monthlyRate p = Num (interestRate (shared p) / 100 / 12)"
  by (simp add: monthlyRate_def)

lemma numPayments_Num: "numPayments p = Num (loanTermYears (shared p) * 12)"
  by (simp add: numPayments_def)

lemma activeLoanBalance_Num: "activeLoanBalance p = Num (balance_of p)"
  by (simp add: activeLoanBalance_def balance_of_def)

lemma payment_formula:
  assumes "0 < P" "0 < r"
  shows "Num P * (Num r * Math_pow (Num 1 + Num r) (Num n)) / (Math_pow (Num 1 + Num r) (Num n) - Num 1)
          = (if n = 0 then PosInf else Num (annuity P r n))"
proof (cases "n = 0")
  case True
  with assms show ?thesis by (simp add: pow_finite_def)
next
  case False
  have "(1 + r) powr n \<noteq> 1"
    using assms False by simp
  with assms False show ?thesis
    by (simp add: pow_finite_def annuity_def)
qed

lemma monthlyMortgagePayment_closed:
  "monthlyMortgagePayment_local p =
     (if 0 < balance_of p \<and> 0 < interestRate (shared p) / 100 / 12
      then (if loanTermYears (shared p) = 0 then PosInf
            else Num (annuity (balance_of p) (interestRate (shared p) / 100 / 12)
                        (loanTermYears (shared p) * 12)))
      else Num 0)"
proof (cases "0 < balance_of p \<and> 0 < interestRate (shared p) / 100 / 12")
  case True
  then show ?thesis
    unfolding monthlyMortgagePayment_local_def monthlyRate_Num numPayments_Num activeLoanBalance_Num
    using payment_formula [of "balance_of p" "interestRate (shared p) / 100 / 12" "loanTermYears (shared p) * 12"]
    by simp
next
  case False
  then show ?thesis
    unfolding monthlyMortgagePayment_local_def monthlyRate_Num numPayments_Num activeLoanBalance_Num
    by auto
qed



lemma income_degraded:
  assumes "\<not> (type p = LTR \<and> ltr p \<noteq> None)" "\<not> (type p = STR_type \<and> str p \<noteq> None)"
  shows "grossMonthlyIncome_local p = Num 0" and "totalMonthlyExpenses_local p = Num 0"
  using assms
  by (auto simp: grossMonthlyIncome_local_def totalMonthlyExpenses_local_def
      incomeAndExpenses_def)

lemma income_finite:
  "is_finite (grossMonthlyIncome_local p)" "is_finite (totalMonthlyExpenses_local p)"
  by (simp_all add: grossMonthlyIncome_local_def totalMonthlyExpenses_local_def
      incomeAndExpenses_def Let_def)

lemma capex_Num:
  "immediateCapEx_local p =
     Num (sum_list (map estimatedCost (filter (\<lambda>e. timing e = IMMEDIATE) (manualExpenses_local p))))"
  "year1CapEx_local p =
     Num (sum_list (map estimatedCost (filter (\<lambda>e. timing e = YEAR_1) (manualExpenses_local p))))"
  by (simp_all add: immediateCapEx_local_def year1CapEx_local_def reduce_sum_Num)

lemma capex_finite:
  "is_finite (immediateCapEx_local p)" "is_finite (year1CapEx_local p)"
  "is_finite (totalManualCapEx_local p)"
  by (simp_all add: capex_Num totalManualCapEx_local_def)

lemma netMonthlyIncome_finite: "is_finite (netMonthlyIncome_local p)"
  unfolding netMonthlyIncome_local_def by (intro is_finite_minus income_finite)

lemma annualNOI_finite: "is_finite (annualNOI p)"
  unfolding annualNOI_def by (intro is_finite_times netMonthlyIncome_finite) simp

lemma initialCashInvested_finite:
  "is_finite (initialCashInvested_local p)" "is_finite (adjustedInitialCashInvested_local p)"
  by (simp_all add: initialCashInvested_local_def adjustedInitialCashInvested_local_def
      downPayment_def capex_Num)

lemma totalPropertyCost_finite: "is_finite (totalPropertyCost p)"
  by (simp add: totalPropertyCost_def capex_Num)

lemma capRates_finite: "is_finite (capRate_local p)" "is_finite (adjustedCapRate_local p)"
  unfolding capRate_local_def adjustedCapRate_local_def
  by (auto intro!: is_finite_times is_finite_divide_pos annualNOI_finite totalPropertyCost_finite)

lemma payment_finite:
  "loanTermYears (shared p) \<noteq> 0 \<Longrightarrow> is_finite (monthlyMortgagePayment_local p)"
  by (simp add: monthlyMortgagePayment_closed)

lemma cashFlow_finite:
  assumes "loanTermYears (shared p) \<noteq> 0"
  shows "is_finite (netMonthlyCashFlow_local p)" "is_finite (annualNetCashFlow_local p)"
    "is_finite (adjustedAnnualNetCashFlow p)" "is_finite (adjustedNetMonthlyCashFlow p)"
    "is_finite (cashOnCashReturn_local p)" "is_finite (adjustedCashOnCashReturn_local p)"
proof -
  show 1: "is_finite (netMonthlyCashFlow_local p)"
    unfolding netMonthlyCashFlow_local_def
    by (intro is_finite_minus netMonthlyIncome_finite payment_finite assms)
  show 2: "is_finite (annualNetCashFlow_local p)"
    unfolding annualNetCashFlow_local_def by (intro is_finite_times 1) simp
  show 3: "is_finite (adjustedAnnualNetCashFlow p)"
    unfolding adjustedAnnualNetCashFlow_def by (intro is_finite_minus 2 capex_finite)
  show "is_finite (adjustedNetMonthlyCashFlow p)"
    unfolding adjustedNetMonthlyCashFlow_def
    by (intro is_finite_minus 1 is_finite_divide_Num capex_finite) simp
  show "is_finite (cashOnCashReturn_local p)"
    unfolding cashOnCashReturn_local_def
    by (auto intro!: is_finite_times is_finite_divide_pos 2 initialCashInvested_finite)
  show "is_finite (adjustedCashOnCashReturn_local p)"
    unfolding adjustedCashOnCashReturn_local_def
    by (auto intro!: is_finite_times is_finite_divide_pos 3 initialCashInvested_finite)
qed

lemma finite_metrics_nonzero_term:
  assumes "loanTermYears (shared p) \<noteq> 0"
  shows "finite_metrics (calculateMetrics p)"
  unfolding finite_metrics_def calculateMetrics_def
  using cashFlow_finite [OF assms] payment_finite [OF assms]
  by (auto simp: finalNetMonthlyCashFlow_def finalInitialCashInvested_def
      finalCashOnCashReturn_def finalCapRate_def finalAnnualNetCashFlow_def
      round2_def [symmetric]
      intro!: is_finite_round2 is_finite_times income_finite netMonthlyIncome_finite
        initialCashInvested_finite capRates_finite capex_finite)

lemmas example_defs =
  DEFAULT_LTR_PROPERTY_def DEFAULT_STR_PROPERTY_def worked_ltr_def worked_example_def
  roof_year1_def example_cash_def example_year1_def

lemmas local_defs =
  monthlyRate_def numPayments_def activeLoanBalance_def monthlyMortgagePayment_local_def
  incomeAndExpenses_def grossMonthlyIncome_local_def totalMonthlyExpenses_local_def
  netMonthlyIncome_local_def netMonthlyCashFlow_local_def downPayment_def
  initialCashInvested_local_def annualNetCashFlow_local_def cashOnCashReturn_local_def
  annualNOI_def capRate_local_def manualExpenses_local_def immediateCapEx_local_def
  year1CapEx_local_def totalManualCapEx_local_def adjustedInitialCashInvested_local_def
  adjustedAnnualNetCashFlow_def adjustedCashOnCashReturn_local_def totalPropertyCost_def
  adjustedCapRate_local_def hasManualCapEx_def finalInitialCashInvested_def
  finalCashOnCashReturn_def finalCapRate_def finalAnnualNetCashFlow_def
  adjustedNetMonthlyCashFlow_def finalNetMonthlyCashFlow_def reduce_sum_def

section \<open>The worked example\<close>

lemma mul_interval:
  fixes x y :: real
  assumes "l1 \<le> x \<and> x \<le> u1" "l2 \<le> y \<and> y \<le> u2" "0 \<le> l1" "0 \<le> l2"
    and "l \<le> l1 * l2" "u1 * u2 \<le> u"
  shows "l \<le> x * y \<and> x * y \<le> u"
proof -
  have "l1 * l2 \<le> x * y"
    using assms by (intro mult_mono) simp_all
  moreover have "x * y \<le> u1 * u2"
    using assms by (intro mult_mono) simp_all
  ultimately show ?thesis
    using assms by linarith
qed

text \<open>\<open>1.005 ^ 360\<close> lies between 6.0225752 and 6.0225753: the power is split as
  \<open>256 + 64 + 32 + 8\<close> and every product is enclosed between two decimals of twelve
  places.\<close>

lemma monthly_growth_360:
  "60225752 / 10000000 \<le> (201 / 200 :: real) ^ 360 \<and> (201 / 200 :: real) ^ 360 \<le> 60225753 / 10000000"
proof -
  define a :: real where "a = 201 / 200"
  have p8: "1040707043925 / 1000000000000 \<le> a ^ 8 \<and> a ^ 8 \<le> 1040707043926 / 1000000000000"
    by (simp add: a_def power_divide)
  have p16: "1083071151275 / 1000000000000 \<le> a ^ 16 \<and> a ^ 16 \<le> 1083071151278 / 1000000000000"
  proof -
    have "a ^ 16 = a ^ 8 * a ^ 8"
      by (simp flip: power_add)
    then show ?thesis
      using mul_interval [OF p8 p8, of "1083071151275 / 1000000000000" "1083071151278 / 1000000000000"] by simp
  qed
  have p32: "1173043118724 / 1000000000000 \<le> a ^ 32 \<and> a ^ 32 \<le> 1173043118731 / 1000000000000"
  proof -
    have "a ^ 32 = a ^ 16 * a ^ 16"
      by (simp flip: power_add)
    then show ?thesis
      using mul_interval [OF p16 p16, of "1173043118724 / 1000000000000" "1173043118731 / 1000000000000"] by simp
  qed
  have p64: "1376030158385 / 1000000000000 \<le> a ^ 64 \<and> a ^ 64 \<le> 1376030158403 / 1000000000000"
  proof -
    have "a ^ 64 = a ^ 32 * a ^ 32"
      by (simp flip: power_add)
    then show ?thesis
      using mul_interval [OF p32 p32, of "1376030158385 / 1000000000000" "1376030158403 / 1000000000000"] by simp
  qed
  have p128: "1893458996785 / 1000000000000 \<le> a ^ 128 \<and> a ^ 128 \<le> 1893458996835 / 1000000000000"
  proof -
    have "a ^ 128 = a ^ 64 * a ^ 64"
      by (simp flip: power_add)
    then show ?thesis
      using mul_interval [OF p64 p64, of "1893458996785 / 1000000000000" "1893458996835 / 1000000000000"] by simp
  qed
  have p256: "3585186972506 / 1000000000000 \<le> a ^ 256 \<and> a ^ 256 \<le> 3585186972696 / 1000000000000"
  proof -
    have "a ^ 256 = a ^ 128 * a ^ 128"
      by (simp flip: power_add)
    then show ?thesis
      using mul_interval [OF p128 p128, of "3585186972506 / 1000000000000" "3585186972696 / 1000000000000"] by simp
  qed
  have p320: "4933325397617 / 1000000000000 \<le> a ^ 320 \<and> a ^ 320 \<le> 4933325397944 / 1000000000000"
  proof -
    have "a ^ 320 = a ^ 256 * a ^ 64"
      by (simp flip: power_add)
    then show ?thesis
      using mul_interval [OF p256 p64, of "4933325397617 / 1000000000000" "4933325397944 / 1000000000000"] by simp
  qed
  have p352: "5787003410100 / 1000000000000 \<le> a ^ 352 \<and> a ^ 352 \<le> 5787003410520 / 1000000000000"
  proof -
    have "a ^ 352 = a ^ 320 * a ^ 32"
      by (simp flip: power_add)
    then show ?thesis
      using mul_interval [OF p320 p32, of "5787003410100 / 1000000000000" "5787003410520 / 1000000000000"] by simp
  qed
  have p360: "6022575212109 / 1000000000000 \<le> a ^ 360 \<and> a ^ 360 \<le> 6022575212552 / 1000000000000"
  proof -
    have "a ^ 360 = a ^ 352 * a ^ 8"
      by (simp flip: power_add)
    then show ?thesis
      using mul_interval [OF p352 p8, of "6022575212109 / 1000000000000" "6022575212552 / 1000000000000"] by simp
  qed
  from p360 show ?thesis
    by (simp add: a_def)
qed

lemma worked_annuity_bounds:
  "1199101 / 1000 < annuity 200000 (1 / 200) 360 \<and> annuity 200000 (1 / 200) 360 < 11991011 / 10000"
proof -
  define X :: real where "X = (201 / 200) ^ 360"
  have X: "60225752 / 10000000 \<le> X" "X \<le> 60225753 / 10000000"
    using monthly_growth_360 by (simp_all add: X_def)
  then have X1: "0 < X - 1" by simp
  have a: "annuity 200000 (1 / 200) 360 = 1000 * X / (X - 1)"
    by (simp add: annuity_def X_def)
  have "1199101 / 1000 < 1000 * X / (X - 1)"
    using X by (simp add: pos_less_divide_eq [OF X1])
  moreover have "1000 * X / (X - 1) < 11991011 / 10000"
    using X by (simp add: pos_divide_less_eq [OF X1])
  ultimately show ?thesis
    by (simp add: a)
qed

lemma worked_payment_local:
  "monthlyMortgagePayment_local worked_example = Num (annuity 200000 (1 / 200) 360)"
  by (simp add: monthlyMortgagePayment_closed balance_of_def example_defs)

lemma worked_payment:
  "monthlyMortgagePayment (calculateMetrics worked_example) = Num (119910 / 100)"
proof -
  have "\<lfloor>annuity 200000 (1 / 200) 360 * 100 + 1 / 2\<rfloor> = 119910"
    using worked_annuity_bounds by (intro floor_unique) simp_all
  then show ?thesis
    by (simp add: calculateMetrics_def worked_payment_local round2_Num)
qed





section \<open>The claims\<close>

text \<open>
  C1. The selection rule is all or nothing. When the sum of the manual expenses
  (\<open>totalManualCapEx\<close>) is greater than 0, each of the five primary fields
  \<open>netMonthlyCashFlow\<close>, \<open>initialCashInvested\<close>, \<open>cashOnCashReturn\<close>, \<open>capRate\<close> and
  \<open>annualNetCashFlow\<close> of the result is its CapEx-adjusted value after rounding (and
  the three that have an \<open>adjusted*\<close> field are equal to that field); when the sum is
  0, each of the five is its raw value after rounding.
\<close>

theorem selection_rule:
  "(Num 0 < totalManualCapEx_local p \<longrightarrow>
      netMonthlyCashFlow (calculateMetrics p) = round2 (adjustedNetMonthlyCashFlow p) \<and>
      initialCashInvested (calculateMetrics p) = round2 (adjustedInitialCashInvested_local p) \<and>
      cashOnCashReturn (calculateMetrics p) = round2 (adjustedCashOnCashReturn_local p) \<and>
      capRate (calculateMetrics p) = round2 (adjustedCapRate_local p) \<and>
      annualNetCashFlow (calculateMetrics p) = round2 (adjustedAnnualNetCashFlow p) \<and>
      initialCashInvested (calculateMetrics p) = adjustedInitialCashInvested (calculateMetrics p) \<and>
      cashOnCashReturn (calculateMetrics p) = adjustedCashOnCashReturn (calculateMetrics p) \<and>
      capRate (calculateMetrics p) = adjustedCapRate (calculateMetrics p)) \<and>
   (totalManualCapEx_local p = Num 0 \<longrightarrow>
      netMonthlyCashFlow (calculateMetrics p) = round2 (netMonthlyCashFlow_local p) \<and>
      initialCashInvested (calculateMetrics p) = round2 (initialCashInvested_local p) \<and>
      cashOnCashReturn (calculateMetrics p) = round2 (cashOnCashReturn_local p) \<and>
      capRate (calculateMetrics p) = round2 (capRate_local p) \<and>
      annualNetCashFlow (calculateMetrics p) = round2 (annualNetCashFlow_local p))"
  by (simp add: calculateMetrics_def hasManualCapEx_def finalNetMonthlyCashFlow_def
      finalInitialCashInvested_def finalCashOnCashReturn_def finalCapRate_def
      finalAnnualNetCashFlow_def)

lemma example_year1_capex: "totalManualCapEx_local example_year1 = Num 1200"
  by (simp add: totalManualCapEx_local_def immediateCapEx_local_def year1CapEx_local_def
      manualExpenses_local_def reduce_sum_def example_defs)

lemma example_cash_capex: "totalManualCapEx_local example_cash = Num 0"
  by (simp add: totalManualCapEx_local_def immediateCapEx_local_def year1CapEx_local_def
      manualExpenses_local_def reduce_sum_def example_defs)

theorem selection_rule_witness:
  "Num 0 < totalManualCapEx_local example_year1 \<and>
   netMonthlyCashFlow (calculateMetrics example_year1)
     = round2 (adjustedNetMonthlyCashFlow example_year1) \<and>
   capRate (calculateMetrics example_year1) = adjustedCapRate (calculateMetrics example_year1) \<and>
   totalManualCapEx_local example_cash = Num 0 \<and>
   netMonthlyCashFlow (calculateMetrics example_cash)
     = round2 (netMonthlyCashFlow_local example_cash)"
proof -
  have h1: "Num 0 < totalManualCapEx_local example_year1"
    by (simp add: example_year1_capex)
  have h2: "totalManualCapEx_local example_cash = Num 0"
    by (rule example_cash_capex)
  show ?thesis
    using h1 h2 selection_rule [of example_year1] selection_rule [of example_cash]
    by blast
qed



text \<open>
  C5. The claim is that \<open>calculateMetrics\<close> has no error path because every division
  is guarded, a zero divisor giving the value 0. The divisions of the return ratios are
  guarded (\<open>ratio_divisions_guarded\<close> below), but the division of the mortgage payment
  is guarded against a zero balance and a zero rate only, not against a loan term of 0:
  for the worked example with a term of 0 years the divisor \<open>(1+r)^n - 1\<close> is 0, the
  payment returned is \<open>Infinity\<close>, and the returned net monthly cash flow and
  cash-on-cash return are \<open>-Infinity\<close>.
\<close>

theorem zero_term_payment_is_infinite:
  "monthlyMortgagePayment (calculateMetrics zero_term_loan) = PosInf \<and>
   netMonthlyCashFlow (calculateMetrics zero_term_loan) = NegInf \<and>
   cashOnCashReturn (calculateMetrics zero_term_loan) = NegInf"
proof -
  have m: "monthlyMortgagePayment_local zero_term_loan = PosInf"
    by (simp add: monthlyMortgagePayment_closed balance_of_def example_defs zero_term_loan_def)
  have i: "grossMonthlyIncome_local zero_term_loan = Num 3000"
    "totalMonthlyExpenses_local zero_term_loan = Num 650"
    by (simp_all add: grossMonthlyIncome_local_def totalMonthlyExpenses_local_def
        incomeAndExpenses_def Let_def example_defs zero_term_loan_def)
  have c: "totalManualCapEx_local zero_term_loan = Num 0"
    by (simp add: totalManualCapEx_local_def immediateCapEx_local_def year1CapEx_local_def
        manualExpenses_local_def reduce_sum_def example_defs zero_term_loan_def)
  have n: "netMonthlyCashFlow_local zero_term_loan = NegInf"
    by (simp add: netMonthlyCashFlow_local_def netMonthlyIncome_local_def i m)
  have v: "initialCashInvested_local zero_term_loan = Num 50000"
    by (simp add: initialCashInvested_local_def downPayment_def example_defs zero_term_loan_def)
  show ?thesis
    by (simp add: calculateMetrics_def m n c v hasManualCapEx_def finalNetMonthlyCashFlow_def
        finalCashOnCashReturn_def cashOnCashReturn_local_def annualNetCashFlow_local_def)
qed

text \<open>
  The divisions of the return ratios are guarded: the raw cap rate is 0 when the purchase
  price is 0, the raw cash-on-cash return is 0 when the initial cash invested is not
  greater than 0, the adjusted cash-on-cash return is 0 when the adjusted initial cash
  invested is not greater than 0, and the adjusted cap rate is 0 when purchase price +
  immediate CapEx is not greater than 0; with purchase price 0 and immediate CapEx 0 both
  cap rates are 0. In exact arithmetic a loan term of 0 is the only way to a field that
  is not a finite number; in binary64 arithmetic the divisor of the payment is 0 for a
  small interest rate as well (C2 below).
\<close>

lemma ratio_divisions_guarded:
  "(purchasePrice (shared p) = 0 \<longrightarrow> capRate_local p = Num 0) \<and>
   (\<not> Num 0 < initialCashInvested_local p \<longrightarrow> cashOnCashReturn_local p = Num 0) \<and>
   (\<not> Num 0 < adjustedInitialCashInvested_local p \<longrightarrow>
      adjustedCashOnCashReturn_local p = Num 0 \<and>
      adjustedCashOnCashReturn (calculateMetrics p) = Num 0) \<and>
   (\<not> Num 0 < totalPropertyCost p \<longrightarrow>
      adjustedCapRate_local p = Num 0 \<and> adjustedCapRate (calculateMetrics p) = Num 0) \<and>
   (purchasePrice (shared p) = 0 \<and> immediateCapEx_local p = Num 0 \<longrightarrow>
      capRate_local p = Num 0 \<and> adjustedCapRate_local p = Num 0 \<and>
      capRate (calculateMetrics p) = Num 0 \<and> adjustedCapRate (calculateMetrics p) = Num 0) \<and>
   (loanTermYears (shared p) \<noteq> 0 \<longrightarrow> finite_metrics (calculateMetrics p))"
  using finite_metrics_nonzero_term [of p]
  by (simp add: calculateMetrics_def capRate_local_def cashOnCashReturn_local_def
      adjustedCashOnCashReturn_local_def adjustedCapRate_local_def totalPropertyCost_def
      finalCapRate_def)

text \<open>
  C4. The portfolio totals are plain sums over the list: purchase price, cash
  invested, monthly and annual cash flow, and annual NOI as the sum of
  \<open>netMonthlyIncome * 12\<close>. The average cap rate and the average cash-on-cash return
  are the sum divided by the number of properties (0 for an empty portfolio). The
  estimated value is \<open>calculateValuation\<close> of the total annual NOI and the market cap
  rate, which is NOI / (rate / 100) and 0 whenever the rate is not greater than 0; the
  unrealized gain is the estimated value minus the total purchase price. In particular
  \<open>calculateValuation(60000, 6) = 1000000\<close> and \<open>calculateValuation(60000, 0) = 0\<close>.
\<close>

theorem portfolio_totals:
  "totalValue (totals ps c) = plain_sum (map (\<lambda>p. Num (purchasePrice (shared p))) ps) \<and>
   totalValue (totals ps c) = Num (sum_list (map (\<lambda>p. purchasePrice (shared p)) ps)) \<and>
   totalCashInvested (totals ps c) = plain_sum (map (\<lambda>p. initialCashInvested (metrics p)) ps) \<and>
   totalMonthlyCashFlow (totals ps c) = plain_sum (map (\<lambda>p. netMonthlyCashFlow (metrics p)) ps) \<and>
   totalAnnualCashFlow (totals ps c) = plain_sum (map (\<lambda>p. annualNetCashFlow (metrics p)) ps) \<and>
   totalAnnualNOI (totals ps c)
     = plain_sum (map (\<lambda>p. netMonthlyIncome (metrics p) * Num 12) ps) \<and>
   (ps \<noteq> [] \<longrightarrow>
      avgCapRate (totals ps c)
        = plain_sum (map (\<lambda>p. capRate (metrics p)) ps) / Num (real (length ps)) \<and>
      avgCoC (totals ps c)
        = plain_sum (map (\<lambda>p. cashOnCashReturn (metrics p)) ps) / Num (real (length ps))) \<and>
   (ps = [] \<longrightarrow> avgCapRate (totals ps c) = Num 0 \<and> avgCoC (totals ps c) = Num 0) \<and>
   portfolioValuation (totals ps c) = calculateValuation (totalAnnualNOI (totals ps c)) c \<and>
   equityGain (totals ps c) = portfolioValuation (totals ps c) - totalValue (totals ps c) \<and>
   (rate \<le> Num 0 \<longrightarrow> calculateValuation noi rate = Num 0) \<and>
   (\<not> rate \<le> Num 0 \<longrightarrow> calculateValuation noi rate = noi / (rate / Num 100)) \<and>
   (0 < r \<longrightarrow> calculateValuation (Num a) (Num r) = Num (a / (r / 100))) \<and>
   calculateValuation (Num 60000) (Num 6) = Num 1000000 \<and>
   calculateValuation (Num 60000) (Num 0) = Num 0"
  by (simp add: totals_def Let_def reduce_sum_plain [symmetric] reduce_sum_Num
      calculateValuation_def)

lemma example_cash_metrics:
  "calculateMetrics example_cash =
     \<lparr> monthlyMortgagePayment = Num 0, grossMonthlyIncome = Num 3000,
       totalMonthlyExpenses = Num 650, netMonthlyIncome = Num 2350,
       netMonthlyCashFlow = Num 2350, initialCashInvested = Num 250000,
       cashOnCashReturn = Num (1128 / 100), capRate = Num (1128 / 100),
       annualGrossIncome = Num 36000, annualNetCashFlow = Num 28200,
       totalManualCapEx = Num 0, immediateCapEx = Num 0, year1CapEx = Num 0,
       adjustedInitialCashInvested = Num 250000,
       adjustedCashOnCashReturn = Num (1128 / 100), adjustedCapRate = Num (1128 / 100) \<rparr>"
  by (simp add: calculateMetrics_def local_defs example_defs round2_Num Let_def)

lemma example_year1_metrics:
  "calculateMetrics example_year1 =
     \<lparr> monthlyMortgagePayment = Num 0, grossMonthlyIncome = Num 3000,
       totalMonthlyExpenses = Num 650, netMonthlyIncome = Num 2350,
       netMonthlyCashFlow = Num 2250, initialCashInvested = Num 250000,
       cashOnCashReturn = Num (1080 / 100), capRate = Num (1128 / 100),
       annualGrossIncome = Num 36000, annualNetCashFlow = Num 27000,
       totalManualCapEx = Num 1200, immediateCapEx = Num 0, year1CapEx = Num 1200,
       adjustedInitialCashInvested = Num 250000,
       adjustedCashOnCashReturn = Num (1080 / 100), adjustedCapRate = Num (1128 / 100) \<rparr>"
  by (simp add: calculateMetrics_def local_defs example_defs round2_Num Let_def)

lemma example_prices:
  "purchasePrice (shared example_cash) = 250000" "purchasePrice (shared example_year1) = 250000"
  by (simp_all add: example_defs)

theorem portfolio_totals_witness:
  "[analysis_of example_cash, analysis_of example_year1] \<noteq> [] \<and>
   avgCoC (totals [analysis_of example_cash, analysis_of example_year1] (Num 6))
     = Num (1104 / 100) \<and>
   totalAnnualNOI (totals [analysis_of example_cash, analysis_of example_year1] (Num 6))
     = Num 56400 \<and>
   portfolioValuation (totals [analysis_of example_cash, analysis_of example_year1] (Num 6))
     = Num 940000 \<and>
   equityGain (totals [analysis_of example_cash, analysis_of example_year1] (Num 6))
     = Num 440000 \<and>
   avgCapRate (totals [] (Num 6)) = Num 0 \<and>
   Num 0 \<le> Num 0 \<and> calculateValuation (Num 56400) (Num 0) = Num 0 \<and>
   \<not> Num 6 \<le> Num 0 \<and>
   (0 :: real) < 6 \<and> calculateValuation (Num 56400) (Num 6) = Num (56400 / (6 / 100))"
  using portfolio_totals [of "[analysis_of example_cash, analysis_of example_year1]" "Num 6"
      "Num 0" "Num 56400" 6 56400]
    portfolio_totals [of "[]" "Num 6" "Num 6" "Num 56400" 6 56400]
  by (simp add: analysis_of_def example_cash_metrics example_year1_metrics
      calculateValuation_def example_prices)

text \<open>
  C6, as stated, fails: the unadjusted values cannot be recovered from the result once
  manual CapEx is present. The same rental with an immediate renovation of 100000, bought
  for 100000 or for 100100, gives the same \<open>FinancialMetrics\<close> record, yet the
  unadjusted cap rate is 12.00 in one case and 11.99 in the other.
\<close>

theorem raw_cap_rate_not_in_record:
  "calculateMetrics (bought_at 100000) = calculateMetrics (bought_at 100100) \<and>
   round2 (capRate_local (bought_at 100000)) = Num 12 \<and>
   round2 (capRate_local (bought_at 100100)) = Num (1199 / 100)"
  by (simp add: calculateMetrics_def local_defs bought_at_def renovation_def
      DEFAULT_LTR_PROPERTY_def round2_Num Let_def)

text \<open>
  C6, amended. Whichever variant the selection rule picks, the result carries the
  CapEx-adjusted initial cash invested, cash-on-cash return and cap rate (the
  \<open>adjusted*\<close> fields) and the three CapEx sums, each rounded to cents. When
  \<open>totalManualCapEx\<close> is not greater than 0, the five primary fields hold the rounded
  unadjusted values; when it is greater than 0, the five primary fields hold the rounded
  adjusted values.
\<close>

theorem adjusted_always_raw_without_capex:
  "adjustedInitialCashInvested (calculateMetrics p)
     = round2 (adjustedInitialCashInvested_local p) \<and>
   adjustedCashOnCashReturn (calculateMetrics p) = round2 (adjustedCashOnCashReturn_local p) \<and>
   adjustedCapRate (calculateMetrics p) = round2 (adjustedCapRate_local p) \<and>
   totalManualCapEx (calculateMetrics p) = round2 (totalManualCapEx_local p) \<and>
   immediateCapEx (calculateMetrics p) = round2 (immediateCapEx_local p) \<and>
   year1CapEx (calculateMetrics p) = round2 (year1CapEx_local p) \<and>
   (\<not> Num 0 < totalManualCapEx_local p \<longrightarrow>
      initialCashInvested (calculateMetrics p) = round2 (initialCashInvested_local p) \<and>
      cashOnCashReturn (calculateMetrics p) = round2 (cashOnCashReturn_local p) \<and>
      capRate (calculateMetrics p) = round2 (capRate_local p) \<and>
      netMonthlyCashFlow (calculateMetrics p) = round2 (netMonthlyCashFlow_local p) \<and>
      annualNetCashFlow (calculateMetrics p) = round2 (annualNetCashFlow_local p)) \<and>
   (Num 0 < totalManualCapEx_local p \<longrightarrow>
      initialCashInvested (calculateMetrics p) = round2 (adjustedInitialCashInvested_local p) \<and>
      cashOnCashReturn (calculateMetrics p) = round2 (adjustedCashOnCashReturn_local p) \<and>
      capRate (calculateMetrics p) = round2 (adjustedCapRate_local p) \<and>
      netMonthlyCashFlow (calculateMetrics p) = round2 (adjustedNetMonthlyCashFlow p) \<and>
      annualNetCashFlow (calculateMetrics p) = round2 (adjustedAnnualNetCashFlow p))"
  by (simp add: calculateMetrics_def hasManualCapEx_def finalNetMonthlyCashFlow_def
      finalInitialCashInvested_def finalCashOnCashReturn_def finalCapRate_def
      finalAnnualNetCashFlow_def)

theorem adjusted_always_raw_without_capex_witness:
  "\<not> Num 0 < totalManualCapEx_local example_cash \<and>
   capRate (calculateMetrics example_cash) = round2 (capRate_local example_cash) \<and>
   annualNetCashFlow (calculateMetrics example_cash)
     = round2 (annualNetCashFlow_local example_cash) \<and>
   Num 0 < totalManualCapEx_local example_year1 \<and>
   annualNetCashFlow (calculateMetrics example_year1)
     = round2 (adjustedAnnualNetCashFlow example_year1)"
proof -
  have h1: "\<not> Num 0 < totalManualCapEx_local example_cash"
    by (simp add: example_cash_capex)
  have h2: "Num 0 < totalManualCapEx_local example_year1"
    by (simp add: example_year1_capex)
  show ?thesis
    using h1 h2 adjusted_always_raw_without_capex [of example_cash]
      adjusted_always_raw_without_capex [of example_year1]
    by blast
qed


section \<open>Rounding, year-1 expenses and the payment in exact arithmetic\<close>

text \<open>
  The lemmas of this section and of the next one are about \<open>calculateMetrics\<close> under
  exact arithmetic: they say what the program computes when the binary rounding of its
  operations is left out. Under binary64 arithmetic each of them fails at some input, as
  the claims C2, C7, C8 and C9 below show.
\<close>

text \<open>
  In exact arithmetic the payment returned is 0 whenever the active balance or the
  interest rate is not greater than 0, and the annuity formula rounded to the nearest
  cent when both are greater than 0 and the loan term is not 0.
\<close>

lemma exact_payment_rounded_annuity:
  "(\<not> (0 < balance_of p \<and> 0 < interestRate (shared p)) \<longrightarrow>
      monthlyMortgagePayment (calculateMetrics p) = Num 0) \<and>
   (0 < balance_of p \<and> 0 < interestRate (shared p) \<and> loanTermYears (shared p) \<noteq> 0 \<longrightarrow>
      monthlyMortgagePayment (calculateMetrics p)
        = Num (nearest_cent_half_up
                 (annuity (balance_of p) (interestRate (shared p) / 100 / 12)
                    (loanTermYears (shared p) * 12)))) \<and>
   balance_of p =
     (if 0 < loanRemaining (shared p) then loanRemaining (shared p) else loanAmount (shared p))"
  by (auto simp: calculateMetrics_def monthlyMortgagePayment_closed round2_to_cents
      balance_of_def)

text \<open>
  In exact arithmetic every field of the result is its unrounded value rounded to the
  nearest cent, a value halfway between two cents going to the upper cent, for negative
  values as well (\<open>-1.005\<close> becomes \<open>-1.00\<close>, \<open>1.005\<close> becomes \<open>1.01\<close>).
\<close>

lemma exact_fields_rounded_to_cents:
  "monthlyMortgagePayment (calculateMetrics p) = to_cents (monthlyMortgagePayment_local p) \<and>
   grossMonthlyIncome (calculateMetrics p) = to_cents (grossMonthlyIncome_local p) \<and>
   totalMonthlyExpenses (calculateMetrics p) = to_cents (totalMonthlyExpenses_local p) \<and>
   netMonthlyIncome (calculateMetrics p) = to_cents (netMonthlyIncome_local p) \<and>
   netMonthlyCashFlow (calculateMetrics p) = to_cents (finalNetMonthlyCashFlow p) \<and>
   initialCashInvested (calculateMetrics p) = to_cents (finalInitialCashInvested p) \<and>
   cashOnCashReturn (calculateMetrics p) = to_cents (finalCashOnCashReturn p) \<and>
   capRate (calculateMetrics p) = to_cents (finalCapRate p) \<and>
   annualGrossIncome (calculateMetrics p) = to_cents (grossMonthlyIncome_local p * Num 12) \<and>
   annualNetCashFlow (calculateMetrics p) = to_cents (finalAnnualNetCashFlow p) \<and>
   totalManualCapEx (calculateMetrics p) = to_cents (totalManualCapEx_local p) \<and>
   immediateCapEx (calculateMetrics p) = to_cents (immediateCapEx_local p) \<and>
   year1CapEx (calculateMetrics p) = to_cents (year1CapEx_local p) \<and>
   adjustedInitialCashInvested (calculateMetrics p)
     = to_cents (adjustedInitialCashInvested_local p) \<and>
   adjustedCashOnCashReturn (calculateMetrics p) = to_cents (adjustedCashOnCashReturn_local p) \<and>
   adjustedCapRate (calculateMetrics p) = to_cents (adjustedCapRate_local p) \<and>
   (\<exists>k :: int. nearest_cent_half_up x = of_int k / 100) \<and>
   x - 1 / 200 < nearest_cent_half_up x \<and> nearest_cent_half_up x \<le> x + 1 / 200 \<and>
   to_cents (Num (- (1005 / 1000))) = Num (- 1) \<and>
   to_cents (Num (1005 / 1000)) = Num (101 / 100)"
proof -
  have a: "annualGrossIncome (calculateMetrics p) = round2 (grossMonthlyIncome_local p * Num 12)"
    by (simp add: calculateMetrics_def round2_def)
  have k: "\<exists>k :: int. nearest_cent_half_up x = of_int k / 100"
    unfolding nearest_cent_floor by blast
  have b: "x - 1 / 200 < nearest_cent_half_up x" "nearest_cent_half_up x \<le> x + 1 / 200"
    unfolding nearest_cent_floor by linarith+
  have e: "to_cents (Num (- (1005 / 1000))) = Num (- 1)"
    "to_cents (Num (1005 / 1000)) = Num (101 / 100)"
    by (simp_all add: nearest_cent_floor)
  show ?thesis
    using a k b e by (simp add: calculateMetrics_def round2_to_cents)
qed

lemma round2_minus_whole:
  "round2 (x - Num (of_int k)) = round2 x - Num (of_int k)"
proof (cases x)
  case (Num r)
  have "\<lfloor>(r - of_int k) * 100 + 1 / 2\<rfloor> = \<lfloor>r * 100 + 1 / 2\<rfloor> - k * 100"
  proof -
    have "(r - of_int k) * 100 + 1 / 2 = (r * 100 + 1 / 2) - of_int (k * 100)"
      by (simp add: algebra_simps)
    then show ?thesis
      by (simp only: floor_diff_of_int)
  qed
  with Num show ?thesis
    by (simp add: round2_Num diff_divide_distrib)
qed simp_all

lemma locals_without_expenses:
  "netMonthlyCashFlow_local (p\<lparr>manualExpenses := es\<rparr>) = netMonthlyCashFlow_local p"
  "annualNetCashFlow_local (p\<lparr>manualExpenses := es\<rparr>) = annualNetCashFlow_local p"
proof -
  have s: "type (p\<lparr>manualExpenses := es\<rparr>) = type p"
    "shared (p\<lparr>manualExpenses := es\<rparr>) = shared p"
    "ltr (p\<lparr>manualExpenses := es\<rparr>) = ltr p"
    "str (p\<lparr>manualExpenses := es\<rparr>) = str p"
    by simp_all
  show "netMonthlyCashFlow_local (p\<lparr>manualExpenses := es\<rparr>) = netMonthlyCashFlow_local p"
    by (simp only: netMonthlyCashFlow_local_def netMonthlyIncome_local_def
        grossMonthlyIncome_local_def totalMonthlyExpenses_local_def incomeAndExpenses_def
        monthlyMortgagePayment_local_def activeLoanBalance_def monthlyRate_def
        numPayments_def s)
  then show "annualNetCashFlow_local (p\<lparr>manualExpenses := es\<rparr>) = annualNetCashFlow_local p"
    by (simp only: annualNetCashFlow_local_def)
qed

lemma no_expenses: "\<not> hasManualCapEx (p\<lparr>manualExpenses := Some []\<rparr>)"
  by (simp add: hasManualCapEx_def totalManualCapEx_local_def immediateCapEx_local_def
      year1CapEx_local_def manualExpenses_local_def reduce_sum_def)

text \<open>
  In exact arithmetic, when the manual expenses of a property are all tagged \<open>YEAR_1\<close>
  and total 1200, the returned net monthly cash flow is 100 less than the one returned
  with the list emptied, and the returned annual net cash flow is 1200 less.
\<close>

lemma exact_year1_capex_of_1200:
  assumes "manualExpenses p = Some es"
    and "\<forall>e \<in> set es. timing e = YEAR_1"
    and "sum_list (map estimatedCost es) = 1200"
  shows "netMonthlyCashFlow (calculateMetrics p)
           = netMonthlyCashFlow (calculateMetrics (p\<lparr>manualExpenses := Some []\<rparr>)) - Num 100 \<and>
         annualNetCashFlow (calculateMetrics p)
           = annualNetCashFlow (calculateMetrics (p\<lparr>manualExpenses := Some []\<rparr>)) - Num 1200 \<and>
         annualNetCashFlow (calculateMetrics (p\<lparr>manualExpenses := Some []\<rparr>))
           = round2 (annualNetCashFlow_local p)"
proof -
  have f1: "filter (\<lambda>e. timing e = YEAR_1) es = es"
    using assms(2) by (simp add: filter_id_conv)
  have f2: "filter (\<lambda>e. timing e = IMMEDIATE) es = []"
    using assms(2) by (auto simp: filter_empty_conv)
  have y: "year1CapEx_local p = Num 1200"
    using assms(1,3) by (simp add: capex_Num manualExpenses_local_def f1)
  have i: "immediateCapEx_local p = Num 0"
    using assms(1) by (simp add: capex_Num manualExpenses_local_def f2)
  have h: "hasManualCapEx p"
    by (simp add: hasManualCapEx_def totalManualCapEx_local_def y i)
  have m: "netMonthlyCashFlow (calculateMetrics p) = round2 (netMonthlyCashFlow_local p - Num 100)"
    by (simp add: calculateMetrics_def finalNetMonthlyCashFlow_def h
        adjustedNetMonthlyCashFlow_def y)
  have a: "annualNetCashFlow (calculateMetrics p) = round2 (annualNetCashFlow_local p - Num 1200)"
    by (simp add: calculateMetrics_def finalAnnualNetCashFlow_def h
        adjustedAnnualNetCashFlow_def y)
  have m0: "netMonthlyCashFlow (calculateMetrics (p\<lparr>manualExpenses := Some []\<rparr>))
              = round2 (netMonthlyCashFlow_local p)"
    by (simp add: calculateMetrics_def finalNetMonthlyCashFlow_def no_expenses
        locals_without_expenses)
  have a0: "annualNetCashFlow (calculateMetrics (p\<lparr>manualExpenses := Some []\<rparr>))
              = round2 (annualNetCashFlow_local p)"
    by (simp add: calculateMetrics_def finalAnnualNetCashFlow_def no_expenses
        locals_without_expenses)
  show ?thesis
    using round2_minus_whole [of "netMonthlyCashFlow_local p" 100]
      round2_minus_whole [of "annualNetCashFlow_local p" 1200]
    by (simp add: m a m0 a0)
qed


section \<open>The payment as a function of the interest rate\<close>

lemma bernoulli_powr:
  fixes q n :: real
  assumes "1 \<le> q" "0 \<le> n"
  shows "1 + (n + 1) * (q - 1) \<le> q powr (n + 1)"
proof -
  let ?f = "\<lambda>x::real. x powr (n + 1) - (n + 1) * (x - 1)"
  have "?f 1 \<le> ?f q"
  proof (rule DERIV_nonneg_imp_nondecreasing [OF assms(1)])
    fix x :: real
    assume x: "1 \<le> x" "x \<le> q"
    have d: "(?f has_real_derivative ((n + 1) * x powr n - (n + 1))) (at x)"
      using x by (auto intro!: derivative_eq_intros simp: powr_diff)
    have "1 \<le> x powr n"
      using x assms(2) by (simp add: ge_one_powr_ge_zero)
    then have "0 \<le> (n + 1) * (x powr n - 1)"
      using assms(2) by (intro mult_nonneg_nonneg) simp_all
    then have "0 \<le> (n + 1) * x powr n - (n + 1)"
      by (simp add: algebra_simps)
    with d show "\<exists>y. (?f has_real_derivative y) (at x) \<and> 0 \<le> y"
      by blast
  qed
  then show ?thesis by simp
qed

lemma growth_gt_one:
  fixes x n :: real
  assumes "0 < x" "0 < n"
  shows "1 < (1 + x) powr n"
  using powr_less_mono [of 0 n "1 + x"] assms by simp

lemma annuity_factor_alt:
  fixes x n :: real
  assumes "0 < x" "0 < n"
  shows "x * (1 + x) powr n / ((1 + x) powr n - 1) = x / (1 - (1 + x) powr (- n))"
proof -
  have "1 < (1 + x) powr n"
    using assms by (rule growth_gt_one)
  moreover have "1 + x \<noteq> 0" using assms by simp
  ultimately show ?thesis
    by (simp add: powr_minus field_simps)
qed

lemma annuity_factor_mono:
  fixes n r1 r2 :: real
  assumes n: "0 < n" and r1: "0 < r1" and le: "r1 \<le> r2"
  shows "r1 * (1 + r1) powr n / ((1 + r1) powr n - 1)
           \<le> r2 * (1 + r2) powr n / ((1 + r2) powr n - 1)"
proof -
  let ?F = "\<lambda>x::real. x / (1 - (1 + x) powr (- n))"
  have "?F r1 \<le> ?F r2"
  proof (rule DERIV_nonneg_imp_nondecreasing [OF le])
    fix x :: real
    assume x: "r1 \<le> x" "x \<le> r2"
    then have x0: "0 < x" using r1 by simp
    let ?g = "1 - (1 + x) powr (- n)"
    have lt1: "(1 + x) powr (- n) < 1"
      using x0 n by (simp add: powr_less_one)
    then have g0: "0 < ?g" by simp
    have d: "(?F has_real_derivative
               ((1 * ?g - x * (n * (1 + x) powr (- n - 1))) / (?g * ?g))) (at x)"
      using x0 g0 by (auto intro!: derivative_eq_intros)
    have b: "1 + (n + 1) * x \<le> (1 + x) powr (n + 1)"
      using bernoulli_powr [of "1 + x" n] x0 n by simp
    have pos: "0 < (1 + x) powr (- n - 1)"
      using x0 by simp
    have e: "?g - x * (n * (1 + x) powr (- n - 1))
              = (1 + x) powr (- n - 1) * ((1 + x) powr (n + 1) - 1 - (n + 1) * x)"
    proof -
      have a1: "(1 + x) powr (- n - 1) * (1 + x) powr (n + 1) = 1"
        using x0 by (simp flip: powr_add)
      have a2: "(1 + x) powr (- n - 1) * (1 + x) = (1 + x) powr (- n)"
        using x0 powr_add [of "1 + x" "- n - 1" 1] by simp
      have "(1 + x) powr (- n - 1) * ((1 + x) powr (n + 1) - 1 - (n + 1) * x)
            = (1 + x) powr (- n - 1) * (1 + x) powr (n + 1)
              - (1 + x) powr (- n - 1) * (1 + x) - n * x * (1 + x) powr (- n - 1)"
        by (simp add: algebra_simps)
      also have "\<dots> = 1 - (1 + x) powr (- n) - n * x * (1 + x) powr (- n - 1)"
        by (simp only: a1 a2)
      finally show ?thesis by (simp add: algebra_simps)
    qed
    have "0 \<le> ?g - x * (n * (1 + x) powr (- n - 1))"
      unfolding e using pos b by (intro mult_nonneg_nonneg) simp_all
    then have "0 \<le> (1 * ?g - x * (n * (1 + x) powr (- n - 1))) / (?g * ?g)"
      using g0 by (intro divide_nonneg_pos) simp_all
    with d show "\<exists>y. (?F has_real_derivative y) (at x) \<and> 0 \<le> y"
      by blast
  qed
  moreover have "0 < r2" using r1 le by simp
  ultimately show ?thesis
    using annuity_factor_alt [OF r1 n] annuity_factor_alt [OF \<open>0 < r2\<close> n] by simp
qed

lemma annuity_mono:
  assumes "0 \<le> P" "0 < n" "0 < r1" "r1 \<le> r2"
  shows "annuity P r1 n \<le> annuity P r2 n"
proof -
  have "P * (r1 * (1 + r1) powr n / ((1 + r1) powr n - 1))
          \<le> P * (r2 * (1 + r2) powr n / ((1 + r2) powr n - 1))"
    using assms by (intro mult_left_mono annuity_factor_mono)
  then show ?thesis
    by (simp add: annuity_def mult.assoc)
qed

lemma annuity_nonneg:
  assumes "0 \<le> P" "0 < n" "0 < r"
  shows "0 \<le> annuity P r n"
proof -
  have "1 < (1 + r) powr n"
    using assms by (intro growth_gt_one)
  then have "0 < (1 + r) powr n - 1" by simp
  moreover have "0 \<le> P * r * (1 + r) powr n"
    using assms by simp
  ultimately show ?thesis
    unfolding annuity_def by (rule divide_nonneg_pos [rotated])
qed

lemma with_interestRate_simps [simp]:
  "balance_of (with_interestRate p i) = balance_of p"
  "interestRate (shared (with_interestRate p i)) = i"
  "loanTermYears (shared (with_interestRate p i)) = loanTermYears (shared p)"
  by (simp_all add: with_interestRate_def balance_of_def)

lemma payment_mono:
  assumes P: "0 < balance_of p" and n: "0 \<le> loanTermYears (shared p)" and le: "i1 \<le> i2"
  shows "monthlyMortgagePayment_local (with_interestRate p i1)
           \<le> monthlyMortgagePayment_local (with_interestRate p i2)"
proof (cases "0 < i1")
  case False
  then have "monthlyMortgagePayment_local (with_interestRate p i1) = Num 0"
    by (simp add: monthlyMortgagePayment_closed)
  moreover have "Num 0 \<le> monthlyMortgagePayment_local (with_interestRate p i2)"
    using P n annuity_nonneg [of "balance_of p" "loanTermYears (shared p) * 12" "i2 / 100 / 12"]
    by (simp add: monthlyMortgagePayment_closed)
  ultimately show ?thesis by simp
next
  case True
  then have i2: "0 < i2" using le by simp
  show ?thesis
  proof (cases "loanTermYears (shared p) = 0")
    case True
    with P \<open>0 < i1\<close> i2 show ?thesis
      by (simp add: monthlyMortgagePayment_closed)
  next
    case False
    then have "0 < loanTermYears (shared p) * 12" using n by simp
    then have "annuity (balance_of p) (i1 / 100 / 12) (loanTermYears (shared p) * 12)
                 \<le> annuity (balance_of p) (i2 / 100 / 12) (loanTermYears (shared p) * 12)"
      using P \<open>0 < i1\<close> le by (intro annuity_mono) simp_all
    with P \<open>0 < i1\<close> i2 False show ?thesis
      by (simp add: monthlyMortgagePayment_closed)
  qed
qed

lemma round2_mono: "x \<le> y \<Longrightarrow> round2 x \<le> round2 y"
proof (cases x; cases y)
  fix a b
  assume "x \<le> y" "x = Num a" "y = Num b"
  then have "\<lfloor>a * 100 + 1 / 2\<rfloor> \<le> \<lfloor>b * 100 + 1 / 2\<rfloor>"
    by (intro floor_mono) simp
  with \<open>x = Num a\<close> \<open>y = Num b\<close> show ?thesis
    by (simp add: round2_Num divide_right_mono)
qed (simp_all add: round2_Num)

text \<open>
  In exact arithmetic, for an active principal greater than 0 and a loan term that is not
  negative, the payment, before and after rounding, does not decrease when the interest
  rate grows and the other inputs stay the same; the payment is 0 whenever the interest
  rate is 0 or the active balance is 0.
\<close>

lemma exact_payment_monotone_in_rate:
  "(0 < balance_of p \<and> 0 \<le> loanTermYears (shared p) \<and> i1 \<le> i2 \<longrightarrow>
      monthlyMortgagePayment_local (with_interestRate p i1)
        \<le> monthlyMortgagePayment_local (with_interestRate p i2) \<and>
      monthlyMortgagePayment (calculateMetrics (with_interestRate p i1))
        \<le> monthlyMortgagePayment (calculateMetrics (with_interestRate p i2))) \<and>
   (interestRate (shared p) = 0 \<or> balance_of p = 0 \<longrightarrow>
      monthlyMortgagePayment_local p = Num 0 \<and>
      monthlyMortgagePayment (calculateMetrics p) = Num 0)"
  using payment_mono [of p i1 i2] round2_mono
  by (auto simp: calculateMetrics_def monthlyMortgagePayment_closed)


section \<open>Values of binary64 arithmetic\<close>

lemma round64_zero: "round64 (Num 0) = Num 0"
  by simp

declare round64.simps(1) [simp del]

lemma floor_log2_eq:
  assumes "2 powi k \<le> x" "x < 2 powi (k + 1)"
  shows "\<lfloor>log 2 x\<rfloor> = k"
proof -
  have "0 < (2 :: real) powi k" by simp
  with assms have x: "0 < x" by linarith
  have p: "(2 :: real) powr real_of_int k = 2 powi k"
    "(2 :: real) powr real_of_int (k + 1) = 2 powi (k + 1)"
    by (rule powr_real_of_int'; simp)+
  have "2 powr real_of_int k \<le> x \<and> x < 2 powr (real_of_int k + 1)"
    using assms p by (simp add: add.commute)
  then show ?thesis
    using floor_log_eq_powr_iff [of x 2 k] x by simp
qed

text \<open>The value of \<open>round64\<close> at \<open>x\<close>, given the binary exponent \<open>k\<close> of \<open>x\<close>.\<close>

lemma round64_eval:
  assumes "2 powi k \<le> \<bar>x\<bar>" "\<bar>x\<bar> < 2 powi (k + 1)" "- 1022 \<le> k"
    and "of_int (rne (x / 2 powi (k - 52))) * 2 powi (k - 52) = y"
    and "\<bar>y\<bar> < 2 powi 1024"
  shows "round64 (Num x) = Num y"
proof -
  have "0 < (2 :: real) powi k" by simp
  with assms(1) have "x \<noteq> 0" by linarith
  moreover have "\<lfloor>log 2 \<bar>x\<bar>\<rfloor> = k"
    using assms(1,2) by (rule floor_log2_eq)
  ultimately show ?thesis
    using assms(3,4,5) by (simp add: round64.simps(1) Let_def max_def)
qed

text \<open>An integer of magnitude below \<open>2^53\<close> is a binary64 value.\<close>

lemma rne_of_int: "rne (of_int m) = m"
  by (simp add: rne_def)

lemma rne_scaled_int:
  assumes "0 \<le> k" "k \<le> 52"
  shows "rne (of_int n / 2 powi (k - 52)) = n * 2 ^ nat (52 - k)"
proof -
  have "(2 :: real) powi (k - 52) = 1 / 2 ^ nat (52 - k)"
    using assms by (simp add: power_int_def field_simps)
  then have "of_int n / 2 powi (k - 52) = (of_int (n * 2 ^ nat (52 - k)) :: real)"
    by simp
  then show ?thesis
    by (simp only: rne_of_int)
qed

lemma int_exponent:
  assumes "n \<noteq> 0" "\<bar>n\<bar> < 2 ^ 53"
  shows "0 \<le> \<lfloor>log 2 \<bar>real_of_int n\<bar>\<rfloor> \<and> \<lfloor>log 2 \<bar>real_of_int n\<bar>\<rfloor> \<le> 52"
proof -
  have e: "\<bar>real_of_int n\<bar> = real_of_int \<bar>n\<bar>" by simp
  have "1 \<le> \<bar>n\<bar>" using assms(1) by simp
  then have a: "1 \<le> real_of_int \<bar>n\<bar>" by (simp only: of_int_1_le_iff)
  then have "0 \<le> log 2 (real_of_int \<bar>n\<bar>)" by simp
  then have l: "0 \<le> \<lfloor>log 2 (real_of_int \<bar>n\<bar>)\<rfloor>" by simp
  have b: "real_of_int \<bar>n\<bar> < 2 ^ 53"
    using assms(2) by (simp only: of_int_less_numeral_power_cancel_iff)
  have "log 2 (real_of_int \<bar>n\<bar>) < 53"
    using a b log_less_iff [of 2 "real_of_int \<bar>n\<bar>" 53] by (simp add: powr_numeral del: of_int_abs)
  then have "\<lfloor>log 2 (real_of_int \<bar>n\<bar>)\<rfloor> < 53"
    by (simp add: floor_less_iff del: of_int_abs)
  with l show ?thesis unfolding e by simp
qed

lemma round64_of_int:
  assumes "\<bar>n\<bar> < 2 ^ 53"
  shows "round64 (Num (of_int n)) = Num (of_int n)"
proof (cases "n = 0")
  case True
  then show ?thesis by (simp add: round64_zero)
next
  case False
  define k where "k = \<lfloor>log 2 \<bar>real_of_int n\<bar>\<rfloor>"
  have k: "0 \<le> k" "k \<le> 52"
    using int_exponent [OF False assms] by (simp_all add: k_def)
  have p: "(2 :: real) powi (k - 52) * 2 ^ nat (52 - k) = 1"
    using k by (simp add: power_int_def flip: power_mult_distrib)
  have y: "of_int (rne (of_int n / 2 powi (k - 52))) * 2 powi (k - 52) = real_of_int n"
    using p by (simp add: rne_scaled_int [OF k] mult.assoc mult.commute)
  have "\<bar>real_of_int n\<bar> < 2 ^ 53"
    using assms by (metis of_int_abs of_int_less_numeral_power_cancel_iff)
  also have "\<dots> \<le> (2 :: real) powi 1024" by simp
  finally have b: "\<not> 2 powi 1024 \<le> \<bar>real_of_int n\<bar>" by simp
  have m: "max k (- 1022) = k" using k by simp
  show ?thesis
    using False b by (simp add: round64.simps(1) Let_def k_def [symmetric] m y del: of_int_abs)
qed

lemma round64_numeral:
  "(numeral w :: int) < 2 ^ 53 \<Longrightarrow> round64 (Num (numeral w)) = Num (numeral w)"
  using round64_of_int [of "numeral w"] by simp

lemma round64_one: "round64 (Num 1) = Num 1"
  using round64_of_int [of 1] by simp

text \<open>The roundings that occur when \<open>calculateMetrics64\<close> is evaluated at the example
  inputs, each found from the binary exponent of its argument.\<close>

lemma rent_1091_values:
  shows "round64 (Num (3 / 40)) = Num (5404319552844595 / 72057594037927936)"
    and "round64 (Num (15 / 2)) = Num (15 / 2)"
    and "round64 (Num (5896112632153453145 / 72057594037927936)) = Num (5757922492337357 / 70368744177664)"
    and "round64 (Num (19831671327870157 / 70368744177664)) = Num (4957917831967539 / 17592186044416)"
    and "round64 (Num (6717136436409139 / 17592186044416)) = Num (6717136436409139 / 17592186044416)"
    and "round64 (Num (21591 / 50)) = Num (7596657777699717 / 17592186044416)"
    and "round64 (Num (7596745738629939 / 17592186044416)) = Num (7596745738629939 / 17592186044416)"
    and "round64 (Num (43183 / 100)) = Num (7596833699560161 / 17592186044416)"
    and "round64 (Num (55917 / 100)) = Num (4918511335228047 / 8796093022208)"
    and "round64 (Num (2459277657846579 / 4398046511104)) = Num (2459277657846579 / 4398046511104)"
    and "round64 (Num (4918599296158269 / 8796093022208)) = Num (4918599296158269 / 8796093022208)"
    and "round64 (Num (27959 / 50)) = Num (4918599296158269 / 8796093022208)"
    and "round64 (Num (2899082308956979 / 4398046511104)) = Num (2899082308956979 / 4398046511104)"
    and "round64 (Num (11596329235827917 / 17592186044416)) = Num (2899082308956979 / 4398046511104)"
    and "round64 (Num (32959 / 50)) = Num (5798208598379069 / 8796093022208)"
    and "round64 (Num (7377832973539737 / 1099511627776)) = Num (7377832973539737 / 1099511627776)"
    and "round64 (Num (67101 / 10)) = Num (3688916486769869 / 549755813888)"
    and "round64 (Num (8697246926870937 / 1099511627776)) = Num (8697246926870937 / 1099511627776)"
    and "round64 (Num (79101 / 10)) = Num (4348623463435469 / 549755813888)"
    and "round64 (Num (189918643465748475 / 4398046511104)) = Num (86365 / 2)"
    and "round64 (Num (61481941446164475 / 1099511627776)) = Num (7685242680770559 / 137438953472)"
    and "round64 (Num (72477057723924475 / 1099511627776)) = Num (131835 / 2)"
    and "round64 (Num (184445824338493425 / 274877906944)) = Num (671010)"
    and "round64 (Num (217431173171773425 / 274877906944)) = Num (791010)"
proof -
  show "round64 (Num (3 / 40)) = Num (5404319552844595 / 72057594037927936)"
    by (rule round64_eval [where k = "- 4"]) (simp_all add: rne_def Let_def)
  show "round64 (Num (15 / 2)) = Num (15 / 2)"
    by (rule round64_eval [where k = "2"]) (simp_all add: rne_def Let_def)
  show "round64 (Num (5896112632153453145 / 72057594037927936)) = Num (5757922492337357 / 70368744177664)"
    by (rule round64_eval [where k = "6"]) (simp_all add: rne_def Let_def)
  show "round64 (Num (19831671327870157 / 70368744177664)) = Num (4957917831967539 / 17592186044416)"
    by (rule round64_eval [where k = "8"]) (simp_all add: rne_def Let_def)
  show "round64 (Num (6717136436409139 / 17592186044416)) = Num (6717136436409139 / 17592186044416)"
    by (rule round64_eval [where k = "8"]) (simp_all add: rne_def Let_def)
  show "round64 (Num (21591 / 50)) = Num (7596657777699717 / 17592186044416)"
    by (rule round64_eval [where k = "8"]) (simp_all add: rne_def Let_def)
  show "round64 (Num (7596745738629939 / 17592186044416)) = Num (7596745738629939 / 17592186044416)"
    by (rule round64_eval [where k = "8"]) (simp_all add: rne_def Let_def)
  show "round64 (Num (43183 / 100)) = Num (7596833699560161 / 17592186044416)"
    by (rule round64_eval [where k = "8"]) (simp_all add: rne_def Let_def)
  show "round64 (Num (55917 / 100)) = Num (4918511335228047 / 8796093022208)"
    by (rule round64_eval [where k = "9"]) (simp_all add: rne_def Let_def)
  show "round64 (Num (2459277657846579 / 4398046511104)) = Num (2459277657846579 / 4398046511104)"
    by (rule round64_eval [where k = "9"]) (simp_all add: rne_def Let_def)
  show "round64 (Num (4918599296158269 / 8796093022208)) = Num (4918599296158269 / 8796093022208)"
    by (rule round64_eval [where k = "9"]) (simp_all add: rne_def Let_def)
  show "round64 (Num (27959 / 50)) = Num (4918599296158269 / 8796093022208)"
    by (rule round64_eval [where k = "9"]) (simp_all add: rne_def Let_def)
  show "round64 (Num (2899082308956979 / 4398046511104)) = Num (2899082308956979 / 4398046511104)"
    by (rule round64_eval [where k = "9"]) (simp_all add: rne_def Let_def)
  show "round64 (Num (11596329235827917 / 17592186044416)) = Num (2899082308956979 / 4398046511104)"
    by (rule round64_eval [where k = "9"]) (simp_all add: rne_def Let_def)
  show "round64 (Num (32959 / 50)) = Num (5798208598379069 / 8796093022208)"
    by (rule round64_eval [where k = "9"]) (simp_all add: rne_def Let_def)
  show "round64 (Num (7377832973539737 / 1099511627776)) = Num (7377832973539737 / 1099511627776)"
    by (rule round64_eval [where k = "12"]) (simp_all add: rne_def Let_def)
  show "round64 (Num (67101 / 10)) = Num (3688916486769869 / 549755813888)"
    by (rule round64_eval [where k = "12"]) (simp_all add: rne_def Let_def)
  show "round64 (Num (8697246926870937 / 1099511627776)) = Num (8697246926870937 / 1099511627776)"
    by (rule round64_eval [where k = "12"]) (simp_all add: rne_def Let_def)
  show "round64 (Num (79101 / 10)) = Num (4348623463435469 / 549755813888)"
    by (rule round64_eval [where k = "12"]) (simp_all add: rne_def Let_def)
  show "round64 (Num (189918643465748475 / 4398046511104)) = Num (86365 / 2)"
    by (rule round64_eval [where k = "15"]) (simp_all add: rne_def Let_def)
  show "round64 (Num (61481941446164475 / 1099511627776)) = Num (7685242680770559 / 137438953472)"
    by (rule round64_eval [where k = "15"]) (simp_all add: rne_def Let_def)
  show "round64 (Num (72477057723924475 / 1099511627776)) = Num (131835 / 2)"
    by (rule round64_eval [where k = "16"]) (simp_all add: rne_def Let_def)
  show "round64 (Num (184445824338493425 / 274877906944)) = Num (671010)"
    by (rule round64_eval [where k = "19"]) (simp_all add: rne_def Let_def)
  show "round64 (Num (217431173171773425 / 274877906944)) = Num (791010)"
    by (rule round64_eval [where k = "19"]) (simp_all add: rne_def Let_def)
qed

lemma rent_1511_values:
  shows "round64 (Num (19 / 200)) = Num (3422735716801577 / 36028797018963968)"
    and "round64 (Num (19 / 2)) = Num (19 / 2)"
    and "round64 (Num (5171753668087182847 / 36028797018963968)) = Num (5050540691491389 / 35184372088832)"
    and "round64 (Num (12087415109257789 / 35184372088832)) = Num (3021853777314447 / 8796093022208)"
    and "round64 (Num (3901463079535247 / 8796093022208)) = Num (3901463079535247 / 8796093022208)"
    and "round64 (Num (24677 / 50)) = Num (8682447500361073 / 17592186044416)"
    and "round64 (Num (4341267730645647 / 8796093022208)) = Num (4341267730645647 / 8796093022208)"
    and "round64 (Num (9871 / 20)) = Num (8682623422221517 / 17592186044416)"
    and "round64 (Num (8949628825910641 / 8796093022208)) = Num (8949628825910641 / 8796093022208)"
    and "round64 (Num (50873 / 50)) = Num (1118709100796969 / 1099511627776)"
    and "round64 (Num (610473 / 50)) = Num (1678055404858245 / 137438953472)"
    and "round64 (Num (26848886477731923 / 2199023255552)) = Num (6712221619432981 / 549755813888)"
    and "round64 (Num (6712221619432981 / 549755813888)) = Num (6712221619432981 / 549755813888)"
    and "round64 (Num (108531693266141175 / 2199023255552)) = Num (6783230829133823 / 137438953472)"
    and "round64 (Num (223740720647766025 / 2199023255552)) = Num (203491 / 2)"
    and "round64 (Num (167805540485824525 / 137438953472)) = Num (1220946)"
proof -
  show "round64 (Num (19 / 200)) = Num (3422735716801577 / 36028797018963968)"
    by (rule round64_eval [where k = "- 4"]) (simp_all add: rne_def Let_def)
  show "round64 (Num (19 / 2)) = Num (19 / 2)"
    by (rule round64_eval [where k = "3"]) (simp_all add: rne_def Let_def)
  show "round64 (Num (5171753668087182847 / 36028797018963968)) = Num (5050540691491389 / 35184372088832)"
    by (rule round64_eval [where k = "7"]) (simp_all add: rne_def Let_def)
  show "round64 (Num (12087415109257789 / 35184372088832)) = Num (3021853777314447 / 8796093022208)"
    by (rule round64_eval [where k = "8"]) (simp_all add: rne_def Let_def)
  show "round64 (Num (3901463079535247 / 8796093022208)) = Num (3901463079535247 / 8796093022208)"
    by (rule round64_eval [where k = "8"]) (simp_all add: rne_def Let_def)
  show "round64 (Num (24677 / 50)) = Num (8682447500361073 / 17592186044416)"
    by (rule round64_eval [where k = "8"]) (simp_all add: rne_def Let_def)
  show "round64 (Num (4341267730645647 / 8796093022208)) = Num (4341267730645647 / 8796093022208)"
    by (rule round64_eval [where k = "8"]) (simp_all add: rne_def Let_def)
  show "round64 (Num (9871 / 20)) = Num (8682623422221517 / 17592186044416)"
    by (rule round64_eval [where k = "8"]) (simp_all add: rne_def Let_def)
  show "round64 (Num (8949628825910641 / 8796093022208)) = Num (8949628825910641 / 8796093022208)"
    by (rule round64_eval [where k = "9"]) (simp_all add: rne_def Let_def)
  show "round64 (Num (50873 / 50)) = Num (1118709100796969 / 1099511627776)"
    by (rule round64_eval [where k = "9"]) (simp_all add: rne_def Let_def)
  show "round64 (Num (610473 / 50)) = Num (1678055404858245 / 137438953472)"
    by (rule round64_eval [where k = "13"]) (simp_all add: rne_def Let_def)
  show "round64 (Num (26848886477731923 / 2199023255552)) = Num (6712221619432981 / 549755813888)"
    by (rule round64_eval [where k = "13"]) (simp_all add: rne_def Let_def)
  show "round64 (Num (6712221619432981 / 549755813888)) = Num (6712221619432981 / 549755813888)"
    by (rule round64_eval [where k = "13"]) (simp_all add: rne_def Let_def)
  show "round64 (Num (108531693266141175 / 2199023255552)) = Num (6783230829133823 / 137438953472)"
    by (rule round64_eval [where k = "15"]) (simp_all add: rne_def Let_def)
  show "round64 (Num (223740720647766025 / 2199023255552)) = Num (203491 / 2)"
    by (rule round64_eval [where k = "16"]) (simp_all add: rne_def Let_def)
  show "round64 (Num (167805540485824525 / 137438953472)) = Num (1220946)"
    by (rule round64_eval [where k = "20"]) (simp_all add: rne_def Let_def)
qed

lemma loan_values:
  shows "round64 (Num (845100400152153 / 10141204801825835211973625643008)) = Num (845100400152153 / 10141204801825835211973625643008)"
    and "round64 (Num (3961408125713217 / 3961408125713216879677197516800)) = Num (2535301200456459 / 2535301200456458802993406410752)"
    and "round64 (Num (1 / 10000000000000)) = Num (3961408125713217 / 39614081257132168796771975168)"
    and "round64 (Num (2640938750475478125 / 158456325028528675187087900672)) = Num (2579041748511209 / 154742504910672534362390528)"
    and "round64 (Num (1 / 16)) = Num (1 / 16)"
    and "round64 (Num (582622237229761 / 4503599627370496)) = Num (582622237229761 / 4503599627370496)"
    and "round64 (Num (3 / 4)) = Num (3 / 4)"
    and "round64 (Num (10141204801825836057074025795161 / 10141204801825835211973625643008)) = Num (1)"
    and "round64 (Num (17 / 16)) = Num (17 / 16)"
    and "round64 (Num (301147260519105 / 281474976710656)) = Num (301147260519105 / 281474976710656)"
    and "round64 (Num (582622237229761 / 281474976710656)) = Num (582622237229761 / 281474976710656)"
    and "round64 (Num (604586 / 25)) = Num (6647493369905807 / 274877906944)"
    and "round64 (Num (1040396852196001792 / 43021037217015)) = Num (830936814935903 / 34359738368)"
    and "round64 (Num (1820694491343003125 / 70368744177664)) = Num (3556043928404303 / 137438953472)"
    and "round64 (Num (20773420373397575 / 8589934592)) = Num (2596677546674697 / 1073741824)"
proof -
  show "round64 (Num (845100400152153 / 10141204801825835211973625643008)) = Num (845100400152153 / 10141204801825835211973625643008)"
    by (rule round64_eval [where k = "- 54"]) (simp_all add: rne_def Let_def)
  show "round64 (Num (3961408125713217 / 3961408125713216879677197516800)) = Num (2535301200456459 / 2535301200456458802993406410752)"
    by (rule round64_eval [where k = "- 50"]) (simp_all add: rne_def Let_def)
  show "round64 (Num (1 / 10000000000000)) = Num (3961408125713217 / 39614081257132168796771975168)"
    by (rule round64_eval [where k = "- 44"]) (simp_all add: rne_def Let_def)
  show "round64 (Num (2640938750475478125 / 158456325028528675187087900672)) = Num (2579041748511209 / 154742504910672534362390528)"
    by (rule round64_eval [where k = "- 36"]) (simp_all add: rne_def Let_def)
  show "round64 (Num (1 / 16)) = Num (1 / 16)"
    by (rule round64_eval [where k = "- 4"]) (simp_all add: rne_def Let_def)
  show "round64 (Num (582622237229761 / 4503599627370496)) = Num (582622237229761 / 4503599627370496)"
    by (rule round64_eval [where k = "- 3"]) (simp_all add: rne_def Let_def)
  show "round64 (Num (3 / 4)) = Num (3 / 4)"
    by (rule round64_eval [where k = "- 1"]) (simp_all add: rne_def Let_def)
  show "round64 (Num (10141204801825836057074025795161 / 10141204801825835211973625643008)) = Num (1)"
    by (rule round64_eval [where k = "0"]) (simp_all add: rne_def Let_def)
  show "round64 (Num (17 / 16)) = Num (17 / 16)"
    by (rule round64_eval [where k = "0"]) (simp_all add: rne_def Let_def)
  show "round64 (Num (301147260519105 / 281474976710656)) = Num (301147260519105 / 281474976710656)"
    by (rule round64_eval [where k = "0"]) (simp_all add: rne_def Let_def)
  show "round64 (Num (582622237229761 / 281474976710656)) = Num (582622237229761 / 281474976710656)"
    by (rule round64_eval [where k = "1"]) (simp_all add: rne_def Let_def)
  show "round64 (Num (604586 / 25)) = Num (6647493369905807 / 274877906944)"
    by (rule round64_eval [where k = "14"]) (simp_all add: rne_def Let_def)
  show "round64 (Num (1040396852196001792 / 43021037217015)) = Num (830936814935903 / 34359738368)"
    by (rule round64_eval [where k = "14"]) (simp_all add: rne_def Let_def)
  show "round64 (Num (1820694491343003125 / 70368744177664)) = Num (3556043928404303 / 137438953472)"
    by (rule round64_eval [where k = "14"]) (simp_all add: rne_def Let_def)
  show "round64 (Num (20773420373397575 / 8589934592)) = Num (2596677546674697 / 1073741824)"
    by (rule round64_eval [where k = "21"]) (simp_all add: rne_def Let_def)
qed

lemmas round64_int = round64_zero round64_one round64_numeral

lemmas binary64_defs =
  dbl_def add64_def sub64_def mul64_def div64_def Math_pow64_def round2_64_def reduce_sum64_def

lemmas local64_defs =
  monthlyRate64_def numPayments64_def activeLoanBalance64_def monthlyMortgagePayment_local64_def
  incomeAndExpenses64_def grossMonthlyIncome_local64_def totalMonthlyExpenses_local64_def
  netMonthlyIncome_local64_def netMonthlyCashFlow_local64_def downPayment64_def
  initialCashInvested_local64_def annualNetCashFlow_local64_def cashOnCashReturn_local64_def
  annualNOI64_def capRate_local64_def immediateCapEx_local64_def year1CapEx_local64_def
  totalManualCapEx_local64_def adjustedInitialCashInvested_local64_def
  adjustedAnnualNetCashFlow64_def adjustedCashOnCashReturn_local64_def totalPropertyCost64_def
  adjustedCapRate_local64_def hasManualCapEx64_def finalInitialCashInvested64_def
  finalCashOnCashReturn64_def finalCapRate64_def finalAnnualNetCashFlow64_def
  adjustedNetMonthlyCashFlow64_def finalNetMonthlyCashFlow64_def manualExpenses_local_def

lemmas form_defs = rent_1091_def form_ltr_def DEFAULT_LTR_PROPERTY_def

lemma rent_1091_locals:
  "totalMonthlyExpenses_local64 rent_1091 = Num (7596745738629939 / 17592186044416)"
  "netMonthlyCashFlow_local64 rent_1091 = Num (2899082308956979 / 4398046511104)"
  "totalManualCapEx_local64 rent_1091 = Num 0"
  by (simp_all add: local64_defs binary64_defs form_defs Let_def round64_int rent_1091_values)

lemma rent_1091_year1_locals:
  "netMonthlyCashFlow_local64 rent_1091_year1 = Num (2899082308956979 / 4398046511104)"
  "year1CapEx_local64 rent_1091_year1 = Num 1200"
  "totalManualCapEx_local64 rent_1091_year1 = Num 1200"
  by (simp_all add: local64_defs binary64_defs form_defs rent_1091_year1_def roof_year1_def
      Let_def round64_int rent_1091_values)

lemma rent_1511_locals:
  "totalMonthlyExpenses_local64 rent_1511 = Num (4341267730645647 / 8796093022208)"
  "totalMonthlyExpenses_local rent_1511 = Num (98709 / 200)"
  by (simp_all add: local64_defs binary64_defs local_defs rent_1511_def form_ltr_def
      DEFAULT_LTR_PROPERTY_def Let_def round64_int rent_1511_values)

lemma annuity_bounds:
  assumes P: "0 < P" and r: "0 < r" and n: "1 \<le> n" and s: "n * r \<le> 1"
  shows "P / (n * (1 + n * r)) \<le> annuity P r n" "annuity P r n \<le> P * r + P / n"
proof -
  define x where "x = (1 + r) powr n"
  have lo: "n * r \<le> x - 1"
    using bernoulli_powr [of "1 + r" "n - 1"] r n by (simp add: x_def algebra_simps)
  have nr: "0 < n * r" using r n by simp
  then have pos: "0 < x - 1" using lo by linarith
  have "x = exp (n * ln (1 + r))"
    using r by (simp add: x_def powr_def mult.commute)
  also have "\<dots> \<le> exp (n * r)"
    using r n ln_add_one_self_le_self [of r] by (simp add: mult_left_mono)
  also have "\<dots> \<le> 1 + n * r + (n * r)\<^sup>2"
    using nr s by (intro exp_bound) simp_all
  finally have hi: "x - 1 \<le> n * r * (1 + n * r)"
    by (simp add: power2_eq_square algebra_simps)
  have a: "annuity P r n = P * r + P * r / (x - 1)"
    using pos by (simp add: annuity_def x_def [symmetric] field_simps)
  have "P * r / (x - 1) \<le> P * r / (n * r)"
    using P r nr lo pos by (intro divide_left_mono) simp_all
  then show "annuity P r n \<le> P * r + P / n"
    using r by (simp add: a)
  have "P * r / (n * r * (1 + n * r)) \<le> P * r / (x - 1)"
    using P r nr hi pos by (intro divide_left_mono) simp_all
  moreover have "P * r / (n * r * (1 + n * r)) = P / (n * (1 + n * r))"
    using r by simp
  moreover have "0 \<le> P * r" using P r by simp
  ultimately show "P / (n * (1 + n * r)) \<le> annuity P r n"
    by (simp add: a)
qed

lemma tiny_rate_annuity:
  "55555 / 100 < annuity 200000 (1 / 10 ^ 13 / 100 / 12) 360"
  "annuity 200000 (1 / 10 ^ 13 / 100 / 12) 360 < 55556 / 100"
  using annuity_bounds [of 200000 "1 / 10 ^ 13 / 100 / 12" 360] by simp_all

lemmas loan_defs = with_interestRate_def worked_example_def DEFAULT_LTR_PROPERTY_def

lemma tiny_rate_locals:
  "add64 (Num 1) (monthlyRate64 tiny_rate_loan) = Num 1"
  "monthlyMortgagePayment_local64 tiny_rate_loan = PosInf"
  by (simp_all add: local64_defs binary64_defs loan_defs tiny_rate_loan_def pow_finite_def
      round64_int loan_values)

lemma one_year_locals:
  "monthlyMortgagePayment_local64 (with_interestRate one_year_loan (1 / 10 ^ 13)) = PosInf"
  "monthlyMortgagePayment_local64 (with_interestRate one_year_loan 75)
     = Num (830936814935903 / 34359738368)"
  by (simp_all add: local64_defs binary64_defs loan_defs one_year_loan_def pow_finite_def
      power_divide round64_int loan_values)


section \<open>The claims that depend on binary64 arithmetic\<close>

text \<open>
  C2. The claim is that the returned payment is the annuity formula whenever the balance
  and the rate are not 0. In binary64 arithmetic it is not, for an interest rate that is
  small but not 0: for the worked example at \<open>1e-13\<close> percent the annuity formula is
  between 555.55 and 555.56, while in the code the sum \<open>1 + monthlyRate\<close> rounds to 1, the
  divisor \<open>Math.pow(1 + monthlyRate, numPayments) - 1\<close> is 0 and the payment returned is
  \<open>Infinity\<close>.
\<close>

theorem tiny_rate_payment_is_infinite:
  "0 < balance_of tiny_rate_loan \<and>
   0 < interestRate (shared tiny_rate_loan) \<and> interestRate (shared tiny_rate_loan) < 100 \<and>
   55555 / 100 < annuity (balance_of tiny_rate_loan)
                   (interestRate (shared tiny_rate_loan) / 100 / 12)
                   (loanTermYears (shared tiny_rate_loan) * 12) \<and>
   annuity (balance_of tiny_rate_loan) (interestRate (shared tiny_rate_loan) / 100 / 12)
     (loanTermYears (shared tiny_rate_loan) * 12) < 55556 / 100 \<and>
   add64 (Num 1) (monthlyRate64 tiny_rate_loan) = Num 1 \<and>
   monthlyMortgagePayment_local64 tiny_rate_loan = PosInf \<and>
   monthlyMortgagePayment (calculateMetrics64 tiny_rate_loan) = PosInf"
proof -
  have b: "balance_of tiny_rate_loan = 200000"
    "interestRate (shared tiny_rate_loan) = 1 / 10 ^ 13"
    "loanTermYears (shared tiny_rate_loan) * 12 = 360"
    by (simp_all add: balance_of_def loan_defs tiny_rate_loan_def)
  have f: "monthlyMortgagePayment (calculateMetrics64 tiny_rate_loan) = PosInf"
    by (simp add: calculateMetrics64_def round2_64_def mul64_def div64_def tiny_rate_locals)
  show ?thesis
    unfolding b using tiny_rate_annuity f by (simp add: tiny_rate_locals)
qed

text \<open>
  C7. The claim is that every field is its unrounded value rounded to the nearest cent,
  a tie going up. In binary64 arithmetic the expression \<open>Math.round(v * 100) / 100\<close> is
  not that rounding, because the product \<open>v * 100\<close> is itself rounded before
  \<open>Math.round\<close> sees it. For a rent of 1091 at a fee of 7.5 percent the unrounded
  expenses are the binary64 value 431.82499999999998863..., whose nearest cent is 431.82;
  the product with 100 rounds to 43182.5 and the field returned is 431.83. For a rent of
  1511 at a fee of 9.5 percent the expenses are 493.545 in exact arithmetic, which
  rounds half-up to 493.55; the binary64 sum is 493.54499999999996 and the field returned
  is 493.54.
\<close>

theorem returned_expenses_off_by_a_cent:
  "totalMonthlyExpenses_local64 rent_1091 = Num (7596745738629939 / 17592186044416) \<and>
   to_cents (totalMonthlyExpenses_local64 rent_1091) = Num (43182 / 100) \<and>
   mul64 (totalMonthlyExpenses_local64 rent_1091) (Num 100) = Num (86365 / 2) \<and>
   totalMonthlyExpenses (calculateMetrics64 rent_1091) = dbl (43183 / 100) \<and>
   dbl (43183 / 100) \<noteq> dbl (43182 / 100) \<and>
   totalMonthlyExpenses_local rent_1511 = Num (98709 / 200) \<and>
   to_cents (totalMonthlyExpenses_local rent_1511) = Num (49355 / 100) \<and>
   totalMonthlyExpenses (calculateMetrics64 rent_1511) = dbl (49354 / 100) \<and>
   dbl (49354 / 100) \<noteq> dbl (49355 / 100)"
proof -
  have a: "to_cents (totalMonthlyExpenses_local64 rent_1091) = Num (43182 / 100)"
    "to_cents (totalMonthlyExpenses_local rent_1511) = Num (49355 / 100)"
    by (simp_all add: rent_1091_locals rent_1511_locals nearest_cent_floor)
  have m: "mul64 (totalMonthlyExpenses_local64 rent_1091) (Num 100) = Num (86365 / 2)"
    by (simp add: rent_1091_locals mul64_def rent_1091_values)
  have f: "totalMonthlyExpenses (calculateMetrics64 rent_1091) = dbl (43183 / 100)"
    by (simp add: calculateMetrics64_def round2_64_def m div64_def dbl_def)
  have g: "totalMonthlyExpenses (calculateMetrics64 rent_1511) = dbl (49354 / 100)"
    by (simp add: calculateMetrics64_def round2_64_def rent_1511_locals mul64_def div64_def
        dbl_def rent_1511_values)
  have d: "dbl (43183 / 100) \<noteq> dbl (43182 / 100)" "dbl (49354 / 100) \<noteq> dbl (49355 / 100)"
    by (simp_all add: dbl_def rent_1091_values rent_1511_values)
  show ?thesis
    using a m f g d by (simp add: rent_1091_locals rent_1511_locals)
qed

text \<open>
  C8. The claim is that a year-1 expense of 1200 lowers the returned net monthly cash
  flow by exactly 100. In binary64 arithmetic it does not for a rent of 1091 at a fee of
  7.5 percent: the cash flow returned is 659.18 with the list emptied and 559.17 with the
  expense, which is neither 659.18 - 100 as JavaScript computes it (559.18) nor 100 less
  as a real number. The unrounded values are 659.175 and 559.175 up to binary rounding,
  and \<open>Math.round(v * 100) / 100\<close> takes the first up and the second down. The
  returned annual cash flows, 7910.10 and 6710.10, do differ by 1200.
\<close>

theorem year1_capex_cash_flow_off_by_a_cent:
  "manualExpenses rent_1091_year1 = Some [roof_year1] \<and>
   timing roof_year1 = YEAR_1 \<and> estimatedCost roof_year1 = 1200 \<and>
   rent_1091_year1 \<lparr> manualExpenses := Some [] \<rparr> = rent_1091 \<and>
   netMonthlyCashFlow (calculateMetrics64 rent_1091) = dbl (65918 / 100) \<and>
   netMonthlyCashFlow (calculateMetrics64 rent_1091_year1) = dbl (55917 / 100) \<and>
   sub64 (dbl (65918 / 100)) (Num 100) = dbl (55918 / 100) \<and>
   dbl (55917 / 100) \<noteq> dbl (55918 / 100) \<and>
   netMonthlyCashFlow (calculateMetrics64 rent_1091)
     - netMonthlyCashFlow (calculateMetrics64 rent_1091_year1)
     = Num (439848631575511 / 4398046511104) \<and>
   (100 :: real) < 439848631575511 / 4398046511104 \<and>
   annualNetCashFlow (calculateMetrics64 rent_1091) = dbl (791010 / 100) \<and>
   annualNetCashFlow (calculateMetrics64 rent_1091_year1) = dbl (671010 / 100)"
proof -
  have e: "manualExpenses rent_1091_year1 = Some [roof_year1]"
    "timing roof_year1 = YEAR_1" "estimatedCost roof_year1 = 1200"
    "rent_1091_year1 \<lparr> manualExpenses := Some [] \<rparr> = rent_1091"
    by (simp_all add: form_defs rent_1091_year1_def roof_year1_def)
  have h: "\<not> hasManualCapEx64 rent_1091" "hasManualCapEx64 rent_1091_year1"
    by (simp_all add: hasManualCapEx64_def rent_1091_locals rent_1091_year1_locals)
  have m0: "netMonthlyCashFlow (calculateMetrics64 rent_1091) = dbl (65918 / 100)"
    by (simp add: calculateMetrics64_def finalNetMonthlyCashFlow64_def h rent_1091_locals dbl_def
        round2_64_def mul64_def div64_def rent_1091_values)
  have m1: "netMonthlyCashFlow (calculateMetrics64 rent_1091_year1) = dbl (55917 / 100)"
    by (simp add: calculateMetrics64_def finalNetMonthlyCashFlow64_def h
        adjustedNetMonthlyCashFlow64_def rent_1091_year1_locals dbl_def round2_64_def mul64_def
        div64_def sub64_def round64_int rent_1091_values)
  have a0: "annualNetCashFlow (calculateMetrics64 rent_1091) = dbl (791010 / 100)"
    by (simp add: calculateMetrics64_def finalAnnualNetCashFlow64_def h
        annualNetCashFlow_local64_def rent_1091_locals dbl_def round2_64_def mul64_def div64_def
        rent_1091_values)
  have a1: "annualNetCashFlow (calculateMetrics64 rent_1091_year1) = dbl (671010 / 100)"
    by (simp add: calculateMetrics64_def finalAnnualNetCashFlow64_def h
        adjustedAnnualNetCashFlow64_def annualNetCashFlow_local64_def rent_1091_year1_locals
        dbl_def round2_64_def mul64_def div64_def sub64_def rent_1091_values)
  have s: "sub64 (dbl (65918 / 100)) (Num 100) = dbl (55918 / 100)"
    by (simp add: dbl_def sub64_def rent_1091_values)
  show ?thesis
    unfolding m0 m1 a0 a1 s using e by (simp add: dbl_def rent_1091_values)
qed

text \<open>
  C9. The claim is that the payment does not decrease when the interest rate grows. In
  binary64 arithmetic it does: for a loan of 200000 over 1 year the payment is
  \<open>Infinity\<close> at \<open>1e-13\<close> percent, where \<open>1 + monthlyRate\<close> rounds to 1 and the divisor
  \<open>Math.pow(1 + monthlyRate, numPayments) - 1\<close> is 0, and 24183.44 at 75 percent, where
  the monthly rate 0.0625 and the power \<open>1.0625 ^ 12\<close> are binary64 values.
\<close>

theorem payment_not_monotone_in_binary64:
  "0 < balance_of one_year_loan \<and> 0 < loanTermYears (shared one_year_loan) \<and>
   (0 :: real) < 1 / 10 ^ 13 \<and> (1 / 10 ^ 13 :: real) \<le> 75 \<and>
   monthlyMortgagePayment_local64 (with_interestRate one_year_loan (1 / 10 ^ 13)) = PosInf \<and>
   monthlyMortgagePayment_local64 (with_interestRate one_year_loan 75)
     = Num (830936814935903 / 34359738368) \<and>
   monthlyMortgagePayment (calculateMetrics64 (with_interestRate one_year_loan (1 / 10 ^ 13)))
     = PosInf \<and>
   monthlyMortgagePayment (calculateMetrics64 (with_interestRate one_year_loan 75))
     = dbl (2418344 / 100) \<and>
   \<not> monthlyMortgagePayment_local64 (with_interestRate one_year_loan (1 / 10 ^ 13))
       \<le> monthlyMortgagePayment_local64 (with_interestRate one_year_loan 75) \<and>
   \<not> monthlyMortgagePayment (calculateMetrics64 (with_interestRate one_year_loan (1 / 10 ^ 13)))
       \<le> monthlyMortgagePayment (calculateMetrics64 (with_interestRate one_year_loan 75))"
proof -
  have b: "0 < balance_of one_year_loan" "0 < loanTermYears (shared one_year_loan)"
    by (simp_all add: balance_of_def loan_defs one_year_loan_def)
  have f1: "monthlyMortgagePayment
              (calculateMetrics64 (with_interestRate one_year_loan (1 / 10 ^ 13))) = PosInf"
    using one_year_locals(1)
    by (simp add: calculateMetrics64_def round2_64_def mul64_def div64_def)
  have f2: "monthlyMortgagePayment (calculateMetrics64 (with_interestRate one_year_loan 75))
              = dbl (2418344 / 100)"
    by (simp add: calculateMetrics64_def round2_64_def mul64_def div64_def one_year_locals(2)
        dbl_def round64_int loan_values)
  show ?thesis
    unfolding f1 f2 using b one_year_locals(1)
    by (simp add: dbl_def loan_values one_year_locals(2))
qed


section \<open>A property whose detail payload is absent\<close>

lemma payload_independent:
  "monthlyMortgagePayment_local (p\<lparr>type := t, ltr := l, str := s\<rparr>)
     = monthlyMortgagePayment_local p"
  "initialCashInvested_local (p\<lparr>type := t, ltr := l, str := s\<rparr>) = initialCashInvested_local p"
  "immediateCapEx_local (p\<lparr>type := t, ltr := l, str := s\<rparr>) = immediateCapEx_local p"
  "year1CapEx_local (p\<lparr>type := t, ltr := l, str := s\<rparr>) = year1CapEx_local p"
proof -
  have s: "shared (p\<lparr>type := t, ltr := l, str := s\<rparr>) = shared p"
    "manualExpenses (p\<lparr>type := t, ltr := l, str := s\<rparr>) = manualExpenses p"
    by simp_all
  show "monthlyMortgagePayment_local (p\<lparr>type := t, ltr := l, str := s\<rparr>)
          = monthlyMortgagePayment_local p"
    by (simp only: monthlyMortgagePayment_local_def activeLoanBalance_def monthlyRate_def
        numPayments_def s)
  show "initialCashInvested_local (p\<lparr>type := t, ltr := l, str := s\<rparr>)
          = initialCashInvested_local p"
    by (simp only: initialCashInvested_local_def downPayment_def s)
  show "immediateCapEx_local (p\<lparr>type := t, ltr := l, str := s\<rparr>) = immediateCapEx_local p"
    by (simp only: immediateCapEx_local_def manualExpenses_local_def s)
  show "year1CapEx_local (p\<lparr>type := t, ltr := l, str := s\<rparr>) = year1CapEx_local p"
    by (simp only: year1CapEx_local_def manualExpenses_local_def s)
qed

lemma degraded_cash_flow:
  assumes "\<not> (type p = LTR \<and> ltr p \<noteq> None)" "\<not> (type p = STR_type \<and> str p \<noteq> None)"
  shows "netMonthlyIncome_local p = Num 0"
    and "netMonthlyCashFlow_local p = - monthlyMortgagePayment_local p"
  by (simp_all add: netMonthlyIncome_local_def netMonthlyCashFlow_local_def
      income_degraded [OF assms] zero_minus)

lemma degraded_loan_values:
  "monthlyMortgagePayment_local degraded_loan = Num (annuity 200000 (1 / 200) 360)"
  "year1CapEx_local degraded_loan = Num 1200"
  "immediateCapEx_local degraded_loan = Num 0"
  by (simp_all add: monthlyMortgagePayment_closed balance_of_def capex_Num
      manualExpenses_local_def degraded_loan_def example_defs)

lemma degraded_loan_cash_flow:
  "netMonthlyCashFlow (calculateMetrics degraded_loan) = Num (- (129910 / 100))"
proof -
  have d: "netMonthlyCashFlow_local degraded_loan = - monthlyMortgagePayment_local degraded_loan"
    by (rule degraded_cash_flow) (simp_all add: degraded_loan_def example_defs)
  have "\<lfloor>(- annuity 200000 (1 / 200) 360 - 100) * 100 + 1 / 2\<rfloor> = - 129910"
    using worked_annuity_bounds by (intro floor_unique) simp_all
  then show ?thesis
    by (simp add: calculateMetrics_def finalNetMonthlyCashFlow_def hasManualCapEx_def
        totalManualCapEx_local_def adjustedNetMonthlyCashFlow_def d degraded_loan_values
        round2_Num)
qed

text \<open>
  C10, as stated, fails: the returned net monthly cash flow is not always the negation
  of the mortgage payment. For a long-term rental without its \<open>ltr\<close> payload and a
  payment of exactly 0.125, the returned payment is 0.13 and the returned net monthly
  cash flow is \<open>-0.12\<close>, which is the negation neither of 0.13 nor of 0.125.
\<close>

theorem degraded_cash_flow_is_not_negated_payment:
  "type degraded_tie = LTR \<and> ltr degraded_tie = None \<and>
   totalManualCapEx_local degraded_tie = Num 0 \<and>
   monthlyMortgagePayment_local degraded_tie = Num (1 / 8) \<and>
   monthlyMortgagePayment (calculateMetrics degraded_tie) = Num (13 / 100) \<and>
   netMonthlyCashFlow (calculateMetrics degraded_tie) = Num (- (12 / 100)) \<and>
   netMonthlyCashFlow (calculateMetrics degraded_tie)
     \<noteq> - monthlyMortgagePayment (calculateMetrics degraded_tie) \<and>
   netMonthlyCashFlow (calculateMetrics degraded_tie)
     \<noteq> - monthlyMortgagePayment_local degraded_tie"
proof -
  have m: "monthlyMortgagePayment_local degraded_tie = Num (1 / 8)"
    by (simp add: monthlyMortgagePayment_closed balance_of_def annuity_def degraded_tie_def
        DEFAULT_LTR_PROPERTY_def)
  have c: "totalManualCapEx_local degraded_tie = Num 0"
    by (simp add: totalManualCapEx_local_def capex_Num manualExpenses_local_def
        degraded_tie_def DEFAULT_LTR_PROPERTY_def)
  have d: "netMonthlyCashFlow_local degraded_tie = - monthlyMortgagePayment_local degraded_tie"
    by (rule degraded_cash_flow) (simp_all add: degraded_tie_def DEFAULT_LTR_PROPERTY_def)
  have t: "type degraded_tie = LTR \<and> ltr degraded_tie = None"
    by (simp add: degraded_tie_def DEFAULT_LTR_PROPERTY_def)
  show ?thesis
    by (simp add: t m c d calculateMetrics_def finalNetMonthlyCashFlow_def hasManualCapEx_def
        round2_Num)
qed

text \<open>
  C10, amended. When the variant tag of a property does not match a present detail
  payload, the gross monthly income, the monthly expenses and the net monthly income of
  the result are 0, and the net monthly cash flow before rounding is the negated
  mortgage payment. The returned net monthly cash flow is that value rounded to cents,
  or, when the manual CapEx is greater than 0, the negated payment less a twelfth of the
  year-1 CapEx, rounded to cents. The mortgage payment, the initial cash invested and
  the CapEx fields do not depend on the variant tag or the payloads, so the result need
  not be all zero: for the worked example without its payload and with a year-1 expense
  of 1200 the payment is 1199.10 and the net monthly cash flow is \<open>-1299.10\<close>.
\<close>

theorem degraded_metrics:
  "(\<not> (type p = LTR \<and> ltr p \<noteq> None) \<and> \<not> (type p = STR_type \<and> str p \<noteq> None) \<longrightarrow>
      grossMonthlyIncome (calculateMetrics p) = Num 0 \<and>
      totalMonthlyExpenses (calculateMetrics p) = Num 0 \<and>
      netMonthlyIncome (calculateMetrics p) = Num 0 \<and>
      netMonthlyCashFlow_local p = - monthlyMortgagePayment_local p \<and>
      (\<not> Num 0 < totalManualCapEx_local p \<longrightarrow>
         netMonthlyCashFlow (calculateMetrics p) = round2 (- monthlyMortgagePayment_local p)) \<and>
      (Num 0 < totalManualCapEx_local p \<longrightarrow>
         netMonthlyCashFlow (calculateMetrics p)
           = round2 (- monthlyMortgagePayment_local p - year1CapEx_local p / Num 12))) \<and>
   monthlyMortgagePayment (calculateMetrics (p\<lparr>type := t, ltr := l, str := s\<rparr>))
     = monthlyMortgagePayment (calculateMetrics p) \<and>
   initialCashInvested (calculateMetrics (p\<lparr>type := t, ltr := l, str := s\<rparr>))
     = initialCashInvested (calculateMetrics p) \<and>
   adjustedInitialCashInvested (calculateMetrics (p\<lparr>type := t, ltr := l, str := s\<rparr>))
     = adjustedInitialCashInvested (calculateMetrics p) \<and>
   totalManualCapEx (calculateMetrics (p\<lparr>type := t, ltr := l, str := s\<rparr>))
     = totalManualCapEx (calculateMetrics p) \<and>
   immediateCapEx (calculateMetrics (p\<lparr>type := t, ltr := l, str := s\<rparr>))
     = immediateCapEx (calculateMetrics p) \<and>
   year1CapEx (calculateMetrics (p\<lparr>type := t, ltr := l, str := s\<rparr>))
     = year1CapEx (calculateMetrics p) \<and>
   monthlyMortgagePayment (calculateMetrics degraded_loan) = Num (119910 / 100) \<and>
   netMonthlyCashFlow (calculateMetrics degraded_loan) = Num (- (129910 / 100))"
proof -
  have "monthlyMortgagePayment (calculateMetrics degraded_loan)
          = monthlyMortgagePayment (calculateMetrics worked_example)"
    by (simp add: calculateMetrics_def degraded_loan_values worked_payment_local)
  then have x: "monthlyMortgagePayment (calculateMetrics degraded_loan) = Num (119910 / 100)"
    by (simp add: worked_payment)
  have i: "monthlyMortgagePayment (calculateMetrics (p\<lparr>type := t, ltr := l, str := s\<rparr>))
             = monthlyMortgagePayment (calculateMetrics p)"
    "initialCashInvested (calculateMetrics (p\<lparr>type := t, ltr := l, str := s\<rparr>))
       = initialCashInvested (calculateMetrics p)"
    "adjustedInitialCashInvested (calculateMetrics (p\<lparr>type := t, ltr := l, str := s\<rparr>))
       = adjustedInitialCashInvested (calculateMetrics p)"
    "totalManualCapEx (calculateMetrics (p\<lparr>type := t, ltr := l, str := s\<rparr>))
       = totalManualCapEx (calculateMetrics p)"
    "immediateCapEx (calculateMetrics (p\<lparr>type := t, ltr := l, str := s\<rparr>))
       = immediateCapEx (calculateMetrics p)"
    "year1CapEx (calculateMetrics (p\<lparr>type := t, ltr := l, str := s\<rparr>))
       = year1CapEx (calculateMetrics p)"
    by (simp_all add: calculateMetrics_def finalInitialCashInvested_def hasManualCapEx_def
        totalManualCapEx_local_def adjustedInitialCashInvested_local_def payload_independent)
  have d: "\<not> (type p = LTR \<and> ltr p \<noteq> None) \<and> \<not> (type p = STR_type \<and> str p \<noteq> None) \<longrightarrow>
      grossMonthlyIncome (calculateMetrics p) = Num 0 \<and>
      totalMonthlyExpenses (calculateMetrics p) = Num 0 \<and>
      netMonthlyIncome (calculateMetrics p) = Num 0 \<and>
      netMonthlyCashFlow_local p = - monthlyMortgagePayment_local p \<and>
      (\<not> Num 0 < totalManualCapEx_local p \<longrightarrow>
         netMonthlyCashFlow (calculateMetrics p) = round2 (- monthlyMortgagePayment_local p)) \<and>
      (Num 0 < totalManualCapEx_local p \<longrightarrow>
         netMonthlyCashFlow (calculateMetrics p)
           = round2 (- monthlyMortgagePayment_local p - year1CapEx_local p / Num 12))"
  proof
    assume a: "\<not> (type p = LTR \<and> ltr p \<noteq> None) \<and> \<not> (type p = STR_type \<and> str p \<noteq> None)"
    then have a1: "\<not> (type p = LTR \<and> ltr p \<noteq> None)" and a2: "\<not> (type p = STR_type \<and> str p \<noteq> None)"
      by simp_all
    show "grossMonthlyIncome (calculateMetrics p) = Num 0 \<and>
      totalMonthlyExpenses (calculateMetrics p) = Num 0 \<and>
      netMonthlyIncome (calculateMetrics p) = Num 0 \<and>
      netMonthlyCashFlow_local p = - monthlyMortgagePayment_local p \<and>
      (\<not> Num 0 < totalManualCapEx_local p \<longrightarrow>
         netMonthlyCashFlow (calculateMetrics p) = round2 (- monthlyMortgagePayment_local p)) \<and>
      (Num 0 < totalManualCapEx_local p \<longrightarrow>
         netMonthlyCashFlow (calculateMetrics p)
           = round2 (- monthlyMortgagePayment_local p - year1CapEx_local p / Num 12))"
      by (simp add: calculateMetrics_def income_degraded [OF a1 a2]
          degraded_cash_flow [OF a1 a2] finalNetMonthlyCashFlow_def hasManualCapEx_def
          adjustedNetMonthlyCashFlow_def)
  qed
  show ?thesis
    using d i x degraded_loan_cash_flow by blast
qed

theorem degraded_metrics_witness:
  "\<not> (type degraded_loan = LTR \<and> ltr degraded_loan \<noteq> None) \<and>
   \<not> (type degraded_loan = STR_type \<and> str degraded_loan \<noteq> None) \<and>
   Num 0 < totalManualCapEx_local degraded_loan \<and>
   grossMonthlyIncome (calculateMetrics degraded_loan) = Num 0 \<and>
   netMonthlyCashFlow (calculateMetrics degraded_loan)
     = round2 (- monthlyMortgagePayment_local degraded_loan
               - year1CapEx_local degraded_loan / Num 12) \<and>
   \<not> (type degraded_tie = LTR \<and> ltr degraded_tie \<noteq> None) \<and>
   \<not> (type degraded_tie = STR_type \<and> str degraded_tie \<noteq> None) \<and>
   \<not> Num 0 < totalManualCapEx_local degraded_tie \<and>
   netMonthlyCashFlow (calculateMetrics degraded_tie)
     = round2 (- monthlyMortgagePayment_local degraded_tie)"
proof -
  have h1: "\<not> (type degraded_loan = LTR \<and> ltr degraded_loan \<noteq> None)"
    "\<not> (type degraded_loan = STR_type \<and> str degraded_loan \<noteq> None)"
    "Num 0 < totalManualCapEx_local degraded_loan"
    by (simp_all add: totalManualCapEx_local_def degraded_loan_values)
      (simp_all add: degraded_loan_def example_defs)
  have h2: "\<not> (type degraded_tie = LTR \<and> ltr degraded_tie \<noteq> None)"
    "\<not> (type degraded_tie = STR_type \<and> str degraded_tie \<noteq> None)"
    "\<not> Num 0 < totalManualCapEx_local degraded_tie"
    by (simp_all add: totalManualCapEx_local_def capex_Num manualExpenses_local_def
        degraded_tie_def DEFAULT_LTR_PROPERTY_def)
  show ?thesis
    using h1 h2 degraded_metrics [of degraded_loan] degraded_metrics [of degraded_tie]
    by blast
qed

end
